theory Spec2Isabelle
  imports Complex_Main
begin

section \<open>Layer model\<close>

text \<open>
  The editor's layers are JavaScript objects discriminated by their \<open>type\<close> tag.  The
  type declarations (\<open>editorTypes\<close>) and the store (\<open>useEditorStore\<close>) are not part of
  the sources at hand, so the record below lists the fields that the code under study
  reads or writes, and keeps every further field (name, text, font, stroke, ...) in the
  record's extension part.  Field names carry the prefix \<open>layer_\<close> because \<open>x\<close>, \<open>y\<close> and
  \<open>id\<close> cannot be constant names.

  JavaScript numbers are modelled as real numbers: rounding, infinities and NaN are
  outside the model.  An optional field is an \<open>option\<close>; \<open>None\<close> is \<open>undefined\<close>.
\<close>

datatype layer_type =
  LText | LImage | LTexture | LBrush | LLine | LStar | LRect | LCircle | LFill

type_synonym number = real

text \<open>An array of numbers whose reads may yield \<open>undefined\<close>.\<close>

type_synonym number_array = "number option list"

record layer =
  layer_id :: string
  layer_type :: layer_type
  layer_visible :: bool
  layer_locked :: bool
  layer_opacity :: number
  layer_x :: number
  layer_y :: number
  layer_rotation :: number
  layer_scaleX :: number
  layer_scaleY :: number
  layer_width :: "number option"
  layer_height :: "number option"
  layer_radius :: "number option"
  layer_numPoints :: "number option"
  layer_innerRadius :: "number option"
  layer_outerRadius :: "number option"
  layer_points :: "number_array option"
  layer_src :: "string option"
  layer_fillImageDataUrl :: "string option"

text \<open>The argument of \<open>updateLayer\<close>: a partial layer holding the fields to overwrite.\<close>

record layer_patch =
  patch_x :: "number option"
  patch_y :: "number option"
  patch_rotation :: "number option"
  patch_width :: "number option"
  patch_height :: "number option"
  patch_scaleX :: "number option"
  patch_scaleY :: "number option"
  patch_points :: "number_array option"

definition no_patch :: layer_patch where
  "no_patch = \<lparr>patch_x = None, patch_y = None, patch_rotation = None, patch_width = None,
     patch_height = None, patch_scaleX = None, patch_scaleY = None, patch_points = None\<rparr>"

definition merge_patch :: "'a layer_scheme \<Rightarrow> layer_patch \<Rightarrow> 'a layer_scheme" where
  "merge_patch l p =
     l\<lparr>layer_x := (case patch_x p of None \<Rightarrow> layer_x l | Some v \<Rightarrow> v),
       layer_y := (case patch_y p of None \<Rightarrow> layer_y l | Some v \<Rightarrow> v),
       layer_rotation := (case patch_rotation p of None \<Rightarrow> layer_rotation l | Some v \<Rightarrow> v),
       layer_width := (case patch_width p of None \<Rightarrow> layer_width l | Some v \<Rightarrow> Some v),
       layer_height := (case patch_height p of None \<Rightarrow> layer_height l | Some v \<Rightarrow> Some v),
       layer_scaleX := (case patch_scaleX p of None \<Rightarrow> layer_scaleX l | Some v \<Rightarrow> v),
       layer_scaleY := (case patch_scaleY p of None \<Rightarrow> layer_scaleY l | Some v \<Rightarrow> v),
       layer_points := (case patch_points p of None \<Rightarrow> layer_points l | Some v \<Rightarrow> Some v)\<rparr>"

text \<open>
  Modelled from the spec: the store operation \<open>updateLayer(id, updates)\<close> of
  \<open>useEditorStore\<close>, which is not among the sources.  The spec funnels every mutation of a
  layer through the named update operation and has the synchronizer mutate the layer
  that the gesture targets; the handlers call it with the layer identifier and a partial
  layer.  It is modelled as the shallow merge of the given fields into the layer with
  that identifier, every other layer and every field not named in the patch kept.
\<close>

definition updateLayer ::
  "'a layer_scheme list \<Rightarrow> string \<Rightarrow> layer_patch \<Rightarrow> 'a layer_scheme list" where
  "updateLayer layers layerId updates =
     map (\<lambda>l. if layer_id l = layerId then merge_patch l updates else l) layers"

text \<open>\<open>layers.find(l => l.id === layerId)\<close>\<close>

definition find_layer :: "'a layer_scheme list \<Rightarrow> string \<Rightarrow> 'a layer_scheme option" where
  "find_layer layers layerId = find (\<lambda>l. layer_id l = layerId) layers"

text \<open>
  \<open>a || d\<close> on numbers: zero is falsy (and so is NaN, which the model does not have).
  \<open>a || d\<close> on an optional number: \<open>undefined\<close> is falsy as well.
\<close>

definition num_or :: "number \<Rightarrow> number \<Rightarrow> number" where
  "num_or a d = (if a = 0 then d else a)"

definition opt_num_or :: "number option \<Rightarrow> number \<Rightarrow> number" where
  "opt_num_or a d = (case a of None \<Rightarrow> d | Some v \<Rightarrow> num_or v d)"

text \<open>Reading an array element: out of range gives \<open>undefined\<close>.\<close>

definition js_nth :: "number_array \<Rightarrow> nat \<Rightarrow> number option" where
  "js_nth xs i = (if i < length xs then xs ! i else None)"


section \<open>Transform synchronizer (EditorCanvas)\<close>

text \<open>What the handlers read from the Konva node of the event (\<open>e.target\<close>).\<close>

record node_geometry =
  node_x :: number
  node_y :: number
  node_rotation :: number
  node_scaleX :: number
  node_scaleY :: number

text \<open>The content of \<open>transformStartDataRef.current\<close>.\<close>

record transform_start_data =
  start_layerId :: string
  start_width :: "number option"
  start_height :: "number option"
  start_scaleX :: number
  start_scaleY :: number

datatype tool = SelectTool | BrushTool | EraserTool | FillTool | OtherTool string

text \<open>
  \<open>handleDragEnd\<close>: the node's opacity and the cursor are view state; the store receives
  \<open>{x: node.x(), y: node.y()}\<close>.
\<close>

definition handleDragEnd ::
  "node_geometry \<Rightarrow> 'a layer_scheme list \<Rightarrow> string \<Rightarrow> 'a layer_scheme list" where
  "handleDragEnd node layers layerId =
     updateLayer layers layerId
       (no_patch\<lparr>patch_x := Some (node_x node), patch_y := Some (node_y node)\<rparr>)"

text \<open>\<open>handleTransformStart\<close> returns the new content of \<open>transformStartDataRef\<close>.\<close>

definition handleTransformStart ::
  "'a layer_scheme list \<Rightarrow> string \<Rightarrow> transform_start_data option
     \<Rightarrow> transform_start_data option" where
  "handleTransformStart layers layerId ref =
     (case find_layer layers layerId of
        None \<Rightarrow> ref
      | Some layer \<Rightarrow>
          Some \<lparr>start_layerId = layerId,
                start_width = layer_width layer,
                start_height = layer_height layer,
                start_scaleX = num_or (layer_scaleX layer) 1,
                start_scaleY = num_or (layer_scaleY layer) 1\<rparr>)"

text \<open>
  \<open>handleTransformEnd\<close> returns the layers after the store update and the new content of
  \<open>transformStartDataRef\<close>.
\<close>

definition handleTransformEnd ::
  "node_geometry \<Rightarrow> 'a layer_scheme list \<Rightarrow> string \<Rightarrow> transform_start_data option
     \<Rightarrow> 'a layer_scheme list \<times> transform_start_data option" where
  "handleTransformEnd node layers layerId ref =
     (case find_layer layers layerId of
        None \<Rightarrow> (layers, None)
      | Some layer \<Rightarrow>
          (case (if layer_type layer = LRect then ref else None) of
             Some startData \<Rightarrow>
               let originalWidth = opt_num_or (start_width startData) 0;
                   originalHeight = opt_num_or (start_height startData) 0;
                   originalScaleX = start_scaleX startData;
                   originalScaleY = start_scaleY startData;
                   newWidth = \<bar>originalWidth * (node_scaleX node / originalScaleX)\<bar>;
                   newHeight = \<bar>originalHeight * (node_scaleY node / originalScaleY)\<bar>
               in (updateLayer layers layerId
                     (no_patch\<lparr>patch_x := Some (node_x node),
                               patch_y := Some (node_y node),
                               patch_rotation := Some (node_rotation node),
                               patch_width := Some newWidth,
                               patch_height := Some newHeight,
                               patch_scaleX := Some 1,
                               patch_scaleY := Some 1\<rparr>), None)
           | None \<Rightarrow>
               (updateLayer layers layerId
                  (no_patch\<lparr>patch_x := Some (node_x node),
                            patch_y := Some (node_y node),
                            patch_rotation := Some (node_rotation node),
                            patch_scaleX := Some (node_scaleX node),
                            patch_scaleY := Some (node_scaleY node)\<rparr>), None)))"

text \<open>
  The event wiring of the layer nodes (\<open>commonProps\<close>): brush layers get no drag and no
  transform handlers, and a layer is draggable only when it is unlocked, not a brush
  layer, and the fill tool is not active.
\<close>

definition isBrushLayer :: "'a layer_scheme \<Rightarrow> bool" where
  "isBrushLayer layer = (layer_type layer = LBrush)"

definition draggable :: "tool \<Rightarrow> 'a layer_scheme \<Rightarrow> bool" where
  "draggable activeTool layer =
     (\<not> layer_locked layer \<and> \<not> isBrushLayer layer \<and> \<not> (activeTool = FillTool))"

definition onDragEnd ::
  "'a layer_scheme \<Rightarrow> (node_geometry \<Rightarrow> 'a layer_scheme list \<Rightarrow> 'a layer_scheme list) option" where
  "onDragEnd layer =
     (if isBrushLayer layer then None
      else Some (\<lambda>e layers. handleDragEnd e layers (layer_id layer)))"

definition onTransformStart ::
  "'a layer_scheme \<Rightarrow> ('a layer_scheme list \<Rightarrow> transform_start_data option
      \<Rightarrow> transform_start_data option) option" where
  "onTransformStart layer =
     (if isBrushLayer layer then None
      else Some (\<lambda>layers ref. handleTransformStart layers (layer_id layer) ref))"

definition onTransformEnd ::
  "'a layer_scheme \<Rightarrow> (node_geometry \<Rightarrow> 'a layer_scheme list \<Rightarrow> transform_start_data option
      \<Rightarrow> 'a layer_scheme list \<times> transform_start_data option) option" where
  "onTransformEnd layer =
     (if isBrushLayer layer then None
      else Some (\<lambda>e layers ref. handleTransformEnd e layers (layer_id layer) ref))"

text \<open>
  Ending a drag on the layer's node: Konva fires \<open>dragend\<close> on it; the registered
  handler runs if there is one, and nothing is persisted otherwise.
\<close>

definition fire_dragend ::
  "'a layer_scheme \<Rightarrow> node_geometry \<Rightarrow> 'a layer_scheme list \<Rightarrow> 'a layer_scheme list" where
  "fire_dragend layer e layers =
     (case onDragEnd layer of None \<Rightarrow> layers | Some h \<Rightarrow> h e layers)"


section \<open>Line endpoint handles (LineEndpointHandles)\<close>

text \<open>\<open>layer.points || [0, 0, 0, 0]\<close>: an array, even an empty one, is truthy.\<close>

definition points_or_default :: "number_array option \<Rightarrow> number_array" where
  "points_or_default ps =
     (case ps of None \<Rightarrow> [Some 0, Some 0, Some 0, Some 0] | Some xs \<Rightarrow> xs)"

text \<open>
  The handles are rendered only for a selected line layer; otherwise the component
  returns \<open>null\<close>.
\<close>

definition handles_rendered ::
  "'a layer_scheme list \<Rightarrow> string option \<Rightarrow> string \<Rightarrow> bool" where
  "handles_rendered layers selectedLayerId layerId =
     (case find_layer layers layerId of
        None \<Rightarrow> False
      | Some layer \<Rightarrow> layer_type layer = LLine \<and> selectedLayerId = Some layerId)"

text \<open>The \<open>dragmove\<close> handler of the start handle, at handle position \<open>(hx, hy)\<close>.\<close>

definition startHandle_dragMove ::
  "number \<Rightarrow> number \<Rightarrow> 'a layer_scheme list \<Rightarrow> string \<Rightarrow> 'a layer_scheme list" where
  "startHandle_dragMove hx hy layers layerId =
     (case find_layer layers layerId of
        None \<Rightarrow> layers
      | Some currentLayer \<Rightarrow>
          if layer_type currentLayer \<noteq> LLine then layers
          else
            let currentLayerX = num_or (layer_x currentLayer) 0;
                currentLayerY = num_or (layer_y currentLayer) 0;
                currentPoints = points_or_default (layer_points currentLayer);
                newPointX = hx - currentLayerX;
                newPointY = hy - currentLayerY
            in updateLayer layers layerId
                 (no_patch\<lparr>patch_points :=
                    Some [Some newPointX, Some newPointY,
                          js_nth currentPoints 2, js_nth currentPoints 3]\<rparr>))"

text \<open>The \<open>dragmove\<close> handler of the end handle.\<close>

definition endHandle_dragMove ::
  "number \<Rightarrow> number \<Rightarrow> 'a layer_scheme list \<Rightarrow> string \<Rightarrow> 'a layer_scheme list" where
  "endHandle_dragMove hx hy layers layerId =
     (case find_layer layers layerId of
        None \<Rightarrow> layers
      | Some currentLayer \<Rightarrow>
          if layer_type currentLayer \<noteq> LLine then layers
          else
            let currentLayerX = num_or (layer_x currentLayer) 0;
                currentLayerY = num_or (layer_y currentLayer) 0;
                currentPoints = points_or_default (layer_points currentLayer);
                newPointX = hx - currentLayerX;
                newPointY = hy - currentLayerY
            in updateLayer layers layerId
                 (no_patch\<lparr>patch_points :=
                    Some [js_nth currentPoints 0, js_nth currentPoints 1,
                          Some newPointX, Some newPointY]\<rparr>))"


section \<open>Project serializer (projectToBlob)\<close>

text \<open>
  Layer objects live in a store and are referred to by address, so that the shallow copy
  \<open>{...layer}\<close> and the assignments to the copy are distinguished from writes to the
  project's own objects.  The store is a list; an address is an index; allocation
  appends.  Strings are byte strings; identifiers and data URLs are ASCII.
\<close>

type_synonym addr = nat

definition alloc :: "'v list \<Rightarrow> 'v \<Rightarrow> addr \<times> 'v list" where
  "alloc h v = (length h, h @ [v])"

record project_file =
  project_name :: string
  project_createdAt :: string
  project_modelId :: string
  project_baseColor :: string
  project_layers :: "addr list"

datatype image_kind = SrcKind | FillImageKind

record image_entry =
  image_layerId :: string
  image_kind :: image_kind
  image_dataUrl :: string
  image_filename :: string

text \<open>The manifest as serialized: the layer objects are written out by value.\<close>

record 'a manifest =
  manifest_version :: string
  manifest_name :: string
  manifest_createdAt :: string
  manifest_modifiedAt :: string
  manifest_modelId :: string
  manifest_baseColor :: string
  manifest_layers :: "'a layer_scheme list"

datatype 'a zip_entry =
  ManifestJson "'a manifest" | BinaryFile "nat list" | Folder

type_synonym 'a zip = "string \<rightharpoonup> 'a zip_entry"

datatype js_error = InvalidCharacterError

text \<open>\<open>s.startsWith(p)\<close>\<close>

definition startsWith :: "string \<Rightarrow> string \<Rightarrow> bool" where
  "startsWith s p = (take (length p) s = p)"

text \<open>\<open>s.split(c)\<close> for a one-character separator.\<close>

fun split :: "char \<Rightarrow> string \<Rightarrow> string list" where
  "split c [] = [[]]"
| "split c (x # xs) =
     (if x = c then [] # split c xs
      else (case split c xs of [] \<Rightarrow> [[x]] | w # ws \<Rightarrow> (x # w) # ws))"

text \<open>\<open>s.replace(pat, rep)\<close> with a string pattern: the first occurrence only.\<close>

fun replace_first :: "string \<Rightarrow> string \<Rightarrow> string \<Rightarrow> string" where
  "replace_first pat rep [] = (if pat = [] then rep else [])"
| "replace_first pat rep (x # xs) =
     (if take (length pat) (x # xs) = pat then rep @ drop (length pat) (x # xs)
      else x # replace_first pat rep xs)"

text \<open>A string is truthy when it is defined and not empty.\<close>

definition truthy_string :: "string option \<Rightarrow> bool" where
  "truthy_string s = (case s of None \<Rightarrow> False | Some v \<Rightarrow> v \<noteq> [])"

text \<open>
  \<open>dataUrlToUint8Array\<close>.  The platform function \<open>atob\<close> is a parameter: it returns the
  decoded binary string, or \<open>None\<close> when it throws.  A data URL without a comma makes
  \<open>split(',')[1]\<close> undefined, which \<open>atob\<close> receives as the string \<open>undefined\<close>.
\<close>

definition dataUrlToUint8Array ::
  "(string \<Rightarrow> string option) \<Rightarrow> string \<Rightarrow> js_error + nat list" where
  "dataUrlToUint8Array atob dataUrl =
     (let parts = split CHR '','' dataUrl;
          base64 = (if 1 < length parts then parts ! 1 else ''undefined'')
      in case atob base64 of
           None \<Rightarrow> Inl InvalidCharacterError
         | Some binary \<Rightarrow> Inr (map of_char binary))"

text \<open>
  The callback of \<open>project.layers.map\<close>, for the layer object at address \<open>a\<close>:
  it returns the store, the \<open>images\<close> array and the address of \<open>cleanLayer\<close>.
\<close>

definition cleanLayer ::
  "'a layer_scheme list \<Rightarrow> image_entry list \<Rightarrow> addr
     \<Rightarrow> 'a layer_scheme list \<times> image_entry list \<times> addr" where
  "cleanLayer h images a =
     (let (c, h1) = alloc h (h ! a);
          (h2, images2) =
            (if (layer_type (h1 ! a) = LImage \<or> layer_type (h1 ! a) = LTexture)
                \<and> truthy_string (layer_src (h1 ! a))
                \<and> startsWith (the (layer_src (h1 ! a))) ''data:''
             then let filename = ''images/'' @ layer_id (h1 ! a) @ ''.png''
                  in (h1[c := (h1 ! c)\<lparr>layer_src := Some filename\<rparr>],
                      images @ [\<lparr>image_layerId = layer_id (h1 ! a), image_kind = SrcKind,
                                  image_dataUrl = the (layer_src (h1 ! a)),
                                  image_filename = filename\<rparr>])
             else (h1, images));
          (h3, images3) =
            (if layer_type (h2 ! a) = LFill
                \<and> truthy_string (layer_fillImageDataUrl (h2 ! a))
                \<and> startsWith (the (layer_fillImageDataUrl (h2 ! a))) ''data:''
             then let filename = ''images/fill-'' @ layer_id (h2 ! a) @ ''.png''
                  in (h2[c := (h2 ! c)\<lparr>layer_fillImageDataUrl := Some filename\<rparr>],
                      images2 @ [\<lparr>image_layerId = layer_id (h2 ! a), image_kind = FillImageKind,
                                   image_dataUrl = the (layer_fillImageDataUrl (h2 ! a)),
                                   image_filename = filename\<rparr>])
             else (h2, images2))
      in (h3, images3, c))"

text \<open>\<open>project.layers.map(...)\<close>: the callback runs on the elements from left to right.\<close>

fun cleanLayers ::
  "'a layer_scheme list \<Rightarrow> image_entry list \<Rightarrow> addr list
     \<Rightarrow> 'a layer_scheme list \<times> image_entry list \<times> addr list" where
  "cleanLayers h images [] = (h, images, [])"
| "cleanLayers h images (a # as) =
     (let (h1, images1, c) = cleanLayer h images a;
          (h2, images2, cs) = cleanLayers h1 images1 as
      in (h2, images2, c # cs))"

text \<open>
  The loop that writes the images: \<open>imagesFolder.file(name, bytes)\<close> stores the file
  under the folder's root \<open>images/\<close>.
\<close>

fun addImages ::
  "(string \<Rightarrow> string option) \<Rightarrow> 'a zip \<Rightarrow> image_entry list \<Rightarrow> js_error + 'a zip" where
  "addImages atob z [] = Inr z"
| "addImages atob z (img # imgs) =
     (case dataUrlToUint8Array atob (image_dataUrl img) of
        Inl e \<Rightarrow> Inl e
      | Inr bytes \<Rightarrow>
          let filename = replace_first ''images/'' [] (image_filename img)
          in addImages atob (z(''images/'' @ filename \<mapsto> BinaryFile bytes)) imgs)"

text \<open>
  \<open>projectToBlob\<close>, given the store \<open>h\<close> and the clock reading \<open>now\<close>.  It returns the
  store after the call and either the error with which the promise rejects or the
  archive.  \<open>JSON.stringify\<close> and the DEFLATE compression are not modelled: the archive
  is the table of its files, and the manifest file holds the manifest's value.
\<close>

definition projectToBlob ::
  "(string \<Rightarrow> string option) \<Rightarrow> string \<Rightarrow> 'a layer_scheme list \<Rightarrow> project_file
     \<Rightarrow> 'a layer_scheme list \<times> (js_error + 'a zip)" where
  "projectToBlob atob now h project =
     (let (h1, images, cleanedLayers) = cleanLayers h [] (project_layers project);
          manifest = \<lparr>manifest_version = ''2.0'',
                      manifest_name = project_name project,
                      manifest_createdAt = project_createdAt project,
                      manifest_modifiedAt = now,
                      manifest_modelId = project_modelId project,
                      manifest_baseColor = project_baseColor project,
                      manifest_layers = map (\<lambda>c. h1 ! c) cleanedLayers\<rparr>;
          zip1 = Map.empty(''manifest.json'' \<mapsto> ManifestJson manifest)
      in if length images > 0
         then (h1, addImages atob (zip1(''images/'' \<mapsto> Folder)) images)
         else (h1, Inr zip1))"

text \<open>
  The reading of the claim about the manifest: a raster field is embedded when it is
  set and starts with \<open>data:\<close>; \<open>manifest_entry\<close> is the layer with exactly its embedded
  raster field replaced by the archive path.
\<close>

definition embedded :: "string option \<Rightarrow> bool" where
  "embedded s = (case s of None \<Rightarrow> False | Some v \<Rightarrow> startsWith v ''data:'')"

definition src_path :: "'a layer_scheme \<Rightarrow> string" where
  "src_path l = ''images/'' @ layer_id l @ ''.png''"

definition fill_path :: "'a layer_scheme \<Rightarrow> string" where
  "fill_path l = ''images/fill-'' @ layer_id l @ ''.png''"

definition has_embedded_src :: "'a layer_scheme \<Rightarrow> bool" where
  "has_embedded_src l =
     ((layer_type l = LImage \<or> layer_type l = LTexture) \<and> embedded (layer_src l))"

definition has_embedded_fill :: "'a layer_scheme \<Rightarrow> bool" where
  "has_embedded_fill l = (layer_type l = LFill \<and> embedded (layer_fillImageDataUrl l))"

definition manifest_entry :: "'a layer_scheme \<Rightarrow> 'a layer_scheme" where
  "manifest_entry l =
     l\<lparr>layer_src := (if has_embedded_src l then Some (src_path l) else layer_src l),
       layer_fillImageDataUrl :=
         (if has_embedded_fill l then Some (fill_path l) else layer_fillImageDataUrl l)\<rparr>"

text \<open>The embedded rasters of a layer list, as (archive path, data URL), in order.\<close>

definition rasters_of :: "'a layer_scheme \<Rightarrow> (string \<times> string) list" where
  "rasters_of l =
     (if has_embedded_src l then [(src_path l, the (layer_src l))] else []) @
     (if has_embedded_fill l then [(fill_path l, the (layer_fillImageDataUrl l))] else [])"

definition rasters :: "'a layer_scheme list \<Rightarrow> (string \<times> string) list" where
  "rasters ls = concat (map rasters_of ls)"

text \<open>The entries that the serializer records in \<open>images\<close> for one layer.\<close>

definition image_entries_of :: "'a layer_scheme \<Rightarrow> image_entry list" where
  "image_entries_of l =
     (if has_embedded_src l
      then [\<lparr>image_layerId = layer_id l, image_kind = SrcKind,
              image_dataUrl = the (layer_src l), image_filename = src_path l\<rparr>] else []) @
     (if has_embedded_fill l
      then [\<lparr>image_layerId = layer_id l, image_kind = FillImageKind,
              image_dataUrl = the (layer_fillImageDataUrl l), image_filename = fill_path l\<rparr>]
      else [])"


section \<open>Export capture (exportPngAsDataUrl)\<close>

text \<open>
  The Konva stage is a store of nodes: a node is identified by its index in the list of
  the stage's descendants, in the order in which \<open>find\<close> visits them, and refers to its
  children by their indices.  A node carries the attributes that the export reads or
  writes.  \<open>Transformer\<close> is a subclass of \<open>Group\<close>: its class name is \<open>Transformer\<close> and its
  node type is \<open>Group\<close>.
\<close>

record konva_node =
  className :: string
  nodeType :: string
  listening :: bool
  visible :: bool
  children :: "nat list"

record stage =
  stage_width :: nat
  stage_height :: nat
  stage_nodes :: "konva_node list"

text \<open>The stage of the editor: \<open><Stage width={1024} height={1024}>\<close>.\<close>

definition editor_stage :: "konva_node list \<Rightarrow> stage" where
  "editor_stage ns = \<lparr>stage_width = 1024, stage_height = 1024, stage_nodes = ns\<rparr>"

text \<open>A selector without \<open>#\<close> or \<open>.\<close> matches the class name or the node type.\<close>

definition is_match :: "string \<Rightarrow> konva_node \<Rightarrow> bool" where
  "is_match sel n = (className n = sel \<or> nodeType n = sel)"

definition find_nodes :: "konva_node list \<Rightarrow> string \<Rightarrow> nat list" where
  "find_nodes ns sel = filter (\<lambda>i. is_match sel (ns ! i)) [0 ..< length ns]"

definition findOne :: "konva_node list \<Rightarrow> string \<Rightarrow> nat option" where
  "findOne ns sel = (case find_nodes ns sel of [] \<Rightarrow> None | i # _ \<Rightarrow> Some i)"

text \<open>\<open>node.visible(v)\<close> on the node with index \<open>i\<close>.\<close>

definition set_visible :: "konva_node list \<Rightarrow> nat \<Rightarrow> bool \<Rightarrow> konva_node list" where
  "set_visible ns i v = ns[i := (ns ! i)\<lparr>visible := v\<rparr>]"

text \<open>
  The loop over \<open>allGroups\<close>: a group that does not listen and has at least two children,
  one of them a circle, is recorded with its visibility and hidden.
\<close>

fun hide_brush_cursors ::
  "konva_node list \<Rightarrow> (nat \<times> bool) list \<Rightarrow> nat list \<Rightarrow> konva_node list \<times> (nat \<times> bool) list" where
  "hide_brush_cursors ns elementsToHide [] = (ns, elementsToHide)"
| "hide_brush_cursors ns elementsToHide (grp # groups) =
     (if listening (ns ! grp) = False
      then let childNodes = map (\<lambda>c. ns ! c) (children (ns ! grp));
               hasCircles = list_ex (\<lambda>child. className child = ''Circle'') childNodes
           in if hasCircles \<and> length childNodes \<ge> 2
              then hide_brush_cursors (set_visible ns grp False)
                     (elementsToHide @ [(grp, visible (ns ! grp))]) groups
              else hide_brush_cursors ns elementsToHide groups
      else hide_brush_cursors ns elementsToHide groups)"

text \<open>
  \<open>stage.toDataURL\<close> draws the stage as it is at the call: the capture is determined by
  the options and the nodes at that moment, and its extent is the stage's extent times
  the pixel ratio.  The call can throw, as the canvas method does on a canvas tainted by
  a cross-origin image; whether and what it throws on a stage is the parameter \<open>throws\<close>.
\<close>

datatype dom_exception = SecurityError | OtherException string

record capture =
  capture_pixelRatio :: nat
  capture_mimeType :: string
  capture_width :: nat
  capture_height :: nat
  capture_nodes :: "konva_node list"

definition toDataURL ::
  "(stage \<Rightarrow> dom_exception option) \<Rightarrow> stage \<Rightarrow> nat \<Rightarrow> string \<Rightarrow> dom_exception + capture" where
  "toDataURL throws s pixelRatio mimeType =
     (case throws s of
        Some err \<Rightarrow> Inl err
      | None \<Rightarrow>
          Inr \<lparr>capture_pixelRatio = pixelRatio, capture_mimeType = mimeType,
               capture_width = stage_width s * pixelRatio,
               capture_height = stage_height s * pixelRatio,
               capture_nodes = stage_nodes s\<rparr>)"

text \<open>The restoring loop over \<open>elementsToHide\<close>, in the order of the array.\<close>

fun restore_visibility :: "konva_node list \<Rightarrow> (nat \<times> bool) list \<Rightarrow> konva_node list" where
  "restore_visibility ns [] = ns"
| "restore_visibility ns ((node, wasVisible) # rest) =
     restore_visibility (set_visible ns node wasVisible) rest"

text \<open>How the returned promise settles.\<close>

datatype 'v promise = Resolved 'v | Rejected dom_exception

text \<open>
  \<open>exportPngAsDataUrl\<close> returns the stage as it is when the promise settles, and how it
  settles.  \<open>batchDraw\<close> changes no attribute.  An exception thrown in the executor
  rejects the promise and ends the executor there: the restoring loop is not reached.
\<close>

definition exportPngAsDataUrl ::
  "(stage \<Rightarrow> dom_exception option) \<Rightarrow> stage option
     \<Rightarrow> stage option \<times> capture option promise" where
  "exportPngAsDataUrl throws stage =
     (case stage of
        None \<Rightarrow> (None, Resolved None)
      | Some s \<Rightarrow>
          let transformer = findOne (stage_nodes s) ''Transformer'';
              (ns1, elementsToHide1) =
                (case transformer of
                   None \<Rightarrow> (stage_nodes s, [])
                 | Some t \<Rightarrow> (set_visible (stage_nodes s) t False,
                              [(t, visible (stage_nodes s ! t))]));
              allGroups = find_nodes ns1 ''Group'';
              (ns2, elementsToHide2) = hide_brush_cursors ns1 elementsToHide1 allGroups
          in (case toDataURL throws (s\<lparr>stage_nodes := ns2\<rparr>) 1 ''image/png'' of
                Inl err \<Rightarrow> (Some (s\<lparr>stage_nodes := ns2\<rparr>), Rejected err)
              | Inr dataURL \<Rightarrow>
                  let ns3 = restore_visibility ns2 elementsToHide2
                  in (Some (s\<lparr>stage_nodes := ns3\<rparr>), Resolved (Some dataURL))))"

text \<open>The test of the loop, as a predicate on a node of the stage.\<close>

definition is_brush_cursor :: "konva_node list \<Rightarrow> nat \<Rightarrow> bool" where
  "is_brush_cursor ns g =
     (is_match ''Group'' (ns ! g) \<and> \<not> listening (ns ! g)
      \<and> list_ex (\<lambda>c. className (ns ! c) = ''Circle'') (children (ns ! g))
      \<and> length (children (ns ! g)) \<ge> 2)"

text \<open>The nodes that the export hides: the transformer found first and the brush cursors.\<close>

definition export_hides :: "konva_node list \<Rightarrow> nat \<Rightarrow> bool" where
  "export_hides ns i =
     (i < length ns \<and> (findOne ns ''Transformer'' = Some i \<or> is_brush_cursor ns i))"

definition hidden_for_capture :: "konva_node list \<Rightarrow> konva_node list" where
  "hidden_for_capture ns =
     map (\<lambda>i. if export_hides ns i then (ns ! i)\<lparr>visible := False\<rparr> else ns ! i) [0 ..< length ns]"


section \<open>Canvas compositor (EditorCanvas)\<close>

text \<open>
  The children of the Konva layer that \<open>EditorCanvas\<close> renders, as a tree.  A group
  carries its \<open>globalCompositeOperation\<close>.  The canvas is 1024 by 1024 whatever the zoom,
  which scales the surrounding element only.
\<close>

definition canvas_extent :: nat where
  "canvas_extent = 1024"

datatype composite_operation = SourceOver | DestinationIn

datatype layer_component =
  TextLayer | ImageLayer | TextureLayer | BrushLayer | LineLayer | StarLayer
  | RectLayer | CircleLayer | FillLayer

text \<open>The \<open>switch\<close> on the layer type; its default branch has no layer type left.\<close>

fun component_of :: "layer_type \<Rightarrow> layer_component" where
  "component_of LText = TextLayer"
| "component_of LImage = ImageLayer"
| "component_of LTexture = TextureLayer"
| "component_of LBrush = BrushLayer"
| "component_of LLine = LineLayer"
| "component_of LStar = StarLayer"
| "component_of LRect = RectLayer"
| "component_of LCircle = CircleLayer"
| "component_of LFill = FillLayer"

datatype 'a scene_node =
    BaseRect string
  | TemplateImage
  | LayerShape layer_component "'a layer_scheme"
  | GroupNode composite_operation "'a scene_node list"
  | TransformerWrapper
  | BrushCursor

text \<open>The group that applies the template as a mask.\<close>

definition template_mask :: "'a scene_node" where
  "template_mask = GroupNode DestinationIn [TemplateImage]"

text \<open>Base color masked by template.\<close>

definition base_group :: "string \<Rightarrow> 'a scene_node" where
  "base_group baseColor = GroupNode SourceOver [BaseRect baseColor, template_mask]"

text \<open>Masked design layers: \<open>[...layers].reverse().map(...)\<close>, then the mask.\<close>

definition design_group :: "'a layer_scheme list \<Rightarrow> 'a scene_node" where
  "design_group layers =
     GroupNode SourceOver
       (map (\<lambda>layer. LayerShape (component_of (layer_type layer)) layer) (rev layers)
        @ [template_mask])"

definition editor_canvas :: "string \<Rightarrow> 'a layer_scheme list \<Rightarrow> 'a scene_node list" where
  "editor_canvas baseColor layers =
     [base_group baseColor, design_group layers, TransformerWrapper, BrushCursor]"

text \<open>
  Konva draws the children of a container in their order, depth first.
  \<open>drawn_layers\<close> lists the design layers of a tree in the order in which they are drawn.
\<close>

fun drawn_layers :: "'a scene_node \<Rightarrow> 'a layer_scheme list"
  and drawn_layers_list :: "'a scene_node list \<Rightarrow> 'a layer_scheme list" where
  "drawn_layers (LayerShape c layer) = [layer]"
| "drawn_layers (GroupNode operation nodes) = drawn_layers_list nodes"
| "drawn_layers (BaseRect color) = []"
| "drawn_layers TemplateImage = []"
| "drawn_layers TransformerWrapper = []"
| "drawn_layers BrushCursor = []"
| "drawn_layers_list [] = []"
| "drawn_layers_list (n # ns) = drawn_layers n @ drawn_layers_list ns"

text \<open>
  Modelled from the spec: the store operation \<open>addLayer\<close> of \<open>useEditorStore\<close>, which is not
  among the sources.  The spec says that adding a layer inserts it at the head of the
  ordered sequence.  The layer handed over stands for the layer with its fresh
  identifier and its defaults filled in.
\<close>

definition addLayer :: "'a layer_scheme list \<Rightarrow> 'a layer_scheme \<Rightarrow> 'a layer_scheme list" where
  "addLayer layers layer = layer # layers"

text \<open>
  Pixels.  A canvas gives every pixel a colour and an alpha value.  What a shape puts
  on the canvas (\<open>raster\<close>: the drawing rule of its kind, with its transform, opacity and
  visibility) and how a source pixel is blended over a destination pixel (\<open>over\<close>) are
  parameters.  Under \<open>destination-in\<close> the destination keeps its colour and its alpha is
  multiplied by the alpha of the source.  A container with an operation other than
  \<open>source-over\<close> draws its children with that operation onto the canvas it is drawn
  on; Konva gives a group no canvas of its own.
\<close>

type_synonym pixel = "nat \<times> nat"

type_synonym 'c rgba = "'c \<times> real"

type_synonym 'c canvas = "pixel \<Rightarrow> 'c rgba"

definition composite ::
  "('c rgba \<Rightarrow> 'c rgba \<Rightarrow> 'c rgba) \<Rightarrow> composite_operation \<Rightarrow> 'c rgba \<Rightarrow> 'c rgba \<Rightarrow> 'c rgba" where
  "composite over operation source destination =
     (case operation of
        SourceOver \<Rightarrow> over source destination
      | DestinationIn \<Rightarrow> (fst destination, snd destination * snd source))"

fun draw ::
  "('a scene_node \<Rightarrow> 'c canvas) \<Rightarrow> ('c rgba \<Rightarrow> 'c rgba \<Rightarrow> 'c rgba) \<Rightarrow> composite_operation
     \<Rightarrow> 'a scene_node \<Rightarrow> 'c canvas \<Rightarrow> 'c canvas"
  and draw_children ::
  "('a scene_node \<Rightarrow> 'c canvas) \<Rightarrow> ('c rgba \<Rightarrow> 'c rgba \<Rightarrow> 'c rgba) \<Rightarrow> composite_operation
     \<Rightarrow> 'a scene_node list \<Rightarrow> 'c canvas \<Rightarrow> 'c canvas" where
  "draw raster over operation (GroupNode own nodes) canvas =
     draw_children raster over (if own = SourceOver then operation else own) nodes canvas"
| "draw raster over operation (BaseRect color) canvas =
     (\<lambda>p. composite over operation (raster (BaseRect color) p) (canvas p))"
| "draw raster over operation TemplateImage canvas =
     (\<lambda>p. composite over operation (raster TemplateImage p) (canvas p))"
| "draw raster over operation (LayerShape c layer) canvas =
     (\<lambda>p. composite over operation (raster (LayerShape c layer) p) (canvas p))"
| "draw raster over operation TransformerWrapper canvas =
     (\<lambda>p. composite over operation (raster TransformerWrapper p) (canvas p))"
| "draw raster over operation BrushCursor canvas =
     (\<lambda>p. composite over operation (raster BrushCursor p) (canvas p))"
| "draw_children raster over operation [] canvas = canvas"
| "draw_children raster over operation (n # ns) canvas =
     draw_children raster over operation ns (draw raster over operation n canvas)"

text \<open>
  The masked composite: the base group and the design group drawn on the canvas.  The
  transformer and the brush cursor are drawn on top of it afterwards.
\<close>

definition masked_composite ::
  "('a scene_node \<Rightarrow> 'c canvas) \<Rightarrow> ('c rgba \<Rightarrow> 'c rgba \<Rightarrow> 'c rgba) \<Rightarrow> string
     \<Rightarrow> 'a layer_scheme list \<Rightarrow> 'c canvas \<Rightarrow> 'c canvas" where
  "masked_composite raster over baseColor layers canvas =
     draw_children raster over SourceOver (take 2 (editor_canvas baseColor layers)) canvas"

text \<open>The layer stack on the masked base, before the second mask is applied.\<close>

definition unmasked_stack ::
  "('a scene_node \<Rightarrow> 'c canvas) \<Rightarrow> ('c rgba \<Rightarrow> 'c rgba \<Rightarrow> 'c rgba) \<Rightarrow> string
     \<Rightarrow> 'a layer_scheme list \<Rightarrow> 'c canvas \<Rightarrow> 'c canvas" where
  "unmasked_stack raster over baseColor layers canvas =
     draw_children raster over SourceOver
       (map (\<lambda>layer. LayerShape (component_of (layer_type layer)) layer) (rev layers))
       (draw raster over SourceOver (base_group baseColor) canvas)"


section \<open>Publishing (publishDesign)\<close>

text \<open>
  An error value is either the message object that \<open>publishDesign\<close> builds itself or a
  value it received: the \<open>error\<close> of a collaborator's response, or a caught exception.
  A call either resolves with a value or rejects (throws) with an error.
\<close>

datatype 'e error_value = Message string | Underlying 'e

datatype ('e, 'v) call = Resolves 'v | Rejects 'e

text \<open>
  The environment of one invocation: whether the \<open>supabase\<close> client exists, and what
  each call made by the function results in.  The storage and database calls resolve
  with a response whose \<open>error\<close> is null (\<open>None\<close>) or an error.
\<close>

record 'e publish_env =
  supabase_configured :: bool
  randomUUID_result :: "('e, string) call"
  fetch_blob_result :: "('e, string) call"
  upload_preview_result :: "('e, 'e option) call"
  upload_project_result :: "('e, 'e option) call"
  getPublicUrl_result :: "('e, string) call"
  insert_result :: "('e, 'e option) call"

record publish_args =
  arg_title :: string
  arg_description :: "string option"
  arg_modelId :: string
  arg_previewDataUrl :: string
  arg_projectBlob :: string
  arg_userId :: string

record design_row =
  row_id :: string
  row_user_id :: string
  row_title :: string
  row_description :: "string option"
  row_model_id :: string
  row_preview_image_url :: string
  row_project_file_url :: string

datatype request =
    Fetch string
  | Upload string string
  | GetPublicUrl string
  | Insert design_row

text \<open>
  The world around the call: the editor's in-memory project and the requests sent to
  the collaborators so far.
\<close>

record 'p world =
  in_memory_project :: 'p
  requests :: "request list"

definition send :: "request \<Rightarrow> 'p world \<Rightarrow> 'p world" where
  "send r w = w\<lparr>requests := requests w @ [r]\<rparr>"

record 'e publish_result =
  designId :: string
  error :: "'e error_value option"

text \<open>
  \<open>s.trim()\<close> on byte strings: space, tab, line feed, vertical tab, form feed and
  carriage return are stripped.  The white space beyond ASCII that \<open>trim\<close> also strips
  (U+00A0 and the other Unicode spaces) has no counterpart in a byte string.
\<close>

definition is_space :: "char \<Rightarrow> bool" where
  "is_space c = (c = CHR '' '' \<or> (9 \<le> (of_char c :: nat) \<and> (of_char c :: nat) \<le> 13))"

definition trim :: "string \<Rightarrow> string" where
  "trim s = rev (dropWhile is_space (rev (dropWhile is_space s)))"

text \<open>\<open>description?.trim() || null\<close>\<close>

definition trimmed_description :: "string option \<Rightarrow> string option" where
  "trimmed_description d =
     (case d of None \<Rightarrow> None | Some s \<Rightarrow> if trim s = [] then None else Some (trim s))"

text \<open>
  The body of the \<open>try\<close> block.  \<open>Inl\<close> is an exception on its way to the \<open>catch\<close>; \<open>Inr\<close> is
  the value of a \<open>return\<close>.
\<close>

definition publish_try ::
  "'e publish_env \<Rightarrow> publish_args \<Rightarrow> 'p world \<Rightarrow> ('e + 'e publish_result) \<times> 'p world" where
  "publish_try env args w =
     (case randomUUID_result env of
        Rejects e \<Rightarrow> (Inl e, w)
      | Resolves newId \<Rightarrow>
          let previewPath = ''preview/'' @ newId @ ''.png'';
              projectPath = ''projects/'' @ newId @ ''.twrap'';
              w1 = send (Fetch (arg_previewDataUrl args)) w
          in (case fetch_blob_result env of
                Rejects e \<Rightarrow> (Inl e, w1)
              | Resolves previewBlob \<Rightarrow>
                  let w2 = send (Upload previewPath previewBlob) w1
                  in (case upload_preview_result env of
                        Rejects e \<Rightarrow> (Inl e, w2)
                      | Resolves (Some previewError) \<Rightarrow>
                          (Inr \<lparr>designId = [], error = Some (Underlying previewError)\<rparr>, w2)
                      | Resolves None \<Rightarrow>
                          let w3 = send (Upload projectPath (arg_projectBlob args)) w2
                          in (case upload_project_result env of
                                Rejects e \<Rightarrow> (Inl e, w3)
                              | Resolves (Some projectError) \<Rightarrow>
                                  (Inr \<lparr>designId = [], error = Some (Underlying projectError)\<rparr>, w3)
                              | Resolves None \<Rightarrow>
                                  let w4 = send (GetPublicUrl previewPath) w3
                                  in (case getPublicUrl_result env of
                                        Rejects e \<Rightarrow> (Inl e, w4)
                                      | Resolves publicUrl \<Rightarrow>
                                          let w5 = send (Insert
                                                \<lparr>row_id = newId,
                                                 row_user_id = arg_userId args,
                                                 row_title = trim (arg_title args),
                                                 row_description =
                                                   trimmed_description (arg_description args),
                                                 row_model_id = arg_modelId args,
                                                 row_preview_image_url = publicUrl,
                                                 row_project_file_url = projectPath\<rparr>) w4
                                          in (case insert_result env of
                                                Rejects e \<Rightarrow> (Inl e, w5)
                                              | Resolves (Some dbError) \<Rightarrow>
                                                  (Inr \<lparr>designId = [],
                                                        error = Some (Underlying dbError)\<rparr>, w5)
                                              | Resolves None \<Rightarrow>
                                                  (Inr \<lparr>designId = newId, error = None\<rparr>,
                                                   w5)))))))"

text \<open>
  \<open>publishDesign\<close>: \<open>Inl\<close> would be a rejection of the returned promise, \<open>Inr\<close> is the value
  it resolves with.
\<close>

definition publishDesign ::
  "'e publish_env \<Rightarrow> publish_args \<Rightarrow> 'p world \<Rightarrow> ('e + 'e publish_result) \<times> 'p world" where
  "publishDesign env args w =
     (if \<not> supabase_configured env
      then (Inr \<lparr>designId = [], error = Some (Message ''Supabase not configured'')\<rparr>, w)
      else (case publish_try env args w of
              (Inl err, w') \<Rightarrow> (Inr \<lparr>designId = [], error = Some (Underlying err)\<rparr>, w')
            | (Inr result, w') \<Rightarrow> (Inr result, w')))"

text \<open>
  The reading of the claim: the first step that fails, with the error value it yields,
  in the order of the steps; \<open>None\<close> when every step succeeds.
\<close>

definition step_error :: "('e, 'e option) call \<Rightarrow> 'e option" where
  "step_error c = (case c of Rejects e \<Rightarrow> Some e | Resolves r \<Rightarrow> r)"

definition call_error :: "('e, 'v) call \<Rightarrow> 'e option" where
  "call_error c = (case c of Rejects e \<Rightarrow> Some e | Resolves v \<Rightarrow> None)"

definition first_present :: "'x option list \<Rightarrow> 'x option" where
  "first_present xs = (case List.map_filter id xs of [] \<Rightarrow> None | x # _ \<Rightarrow> Some x)"

definition first_failure :: "'e publish_env \<Rightarrow> 'e error_value option" where
  "first_failure env =
     (if \<not> supabase_configured env then Some (Message ''Supabase not configured'')
      else map_option Underlying
             (first_present
                [call_error (randomUUID_result env),
                 call_error (fetch_blob_result env),
                 step_error (upload_preview_result env),
                 step_error (upload_project_result env),
                 call_error (getPublicUrl_result env),
                 step_error (insert_result env)]))"

definition generated_id :: "'e publish_env \<Rightarrow> string" where
  "generated_id env = (case randomUUID_result env of Resolves newId \<Rightarrow> newId | Rejects e \<Rightarrow> [])"


section \<open>Example values\<close>

definition ex_layer :: "string \<Rightarrow> layer_type \<Rightarrow> layer" where
  "ex_layer i t =
     \<lparr>layer_id = i, layer_type = t, layer_visible = True, layer_locked = False,
      layer_opacity = 1, layer_x = 5, layer_y = 7, layer_rotation = 0,
      layer_scaleX = 1, layer_scaleY = 1, layer_width = None, layer_height = None,
      layer_radius = None, layer_numPoints = None, layer_innerRadius = None,
      layer_outerRadius = None, layer_points = None, layer_src = None,
      layer_fillImageDataUrl = None\<rparr>"

definition ex_rect :: layer where
  "ex_rect = (ex_layer ''r1'' LRect)\<lparr>layer_width := Some 200, layer_height := Some 100,
     layer_scaleX := 2\<rparr>"

definition ex_circle :: layer where
  "ex_circle = (ex_layer ''c1'' LCircle)\<lparr>layer_radius := Some 50\<rparr>"


definition ex_line :: layer where
  "ex_line = (ex_layer ''n1'' LLine)\<lparr>layer_points := Some [Some 0, Some 0, Some 100, Some 50]\<rparr>"

definition ex_node :: node_geometry where
  "ex_node = \<lparr>node_x = 10, node_y = 20, node_rotation = 90, node_scaleX = 3, node_scaleY = -2\<rparr>"


text \<open>
  The platform's Base64 decoder on the two payloads of the examples: \<open>AQID\<close> encodes the
  bytes 1, 2, 3 and \<open>BAUG\<close> the bytes 4, 5, 6.
\<close>

definition ex_atob :: "string \<Rightarrow> string option" where
  "ex_atob s =
     (if s = ''AQID'' then Some [char_of (1::nat), char_of (2::nat), char_of (3::nat)]
      else if s = ''BAUG'' then Some [char_of (4::nat), char_of (5::nat), char_of (6::nat)]
      else None)"

definition ex_image :: layer where
  "ex_image = (ex_layer ''i1'' LImage)\<lparr>layer_src := Some ''data:image/png;base64,AQID''\<rparr>"

definition ex_texture :: layer where
  "ex_texture = (ex_layer ''t1'' LTexture)\<lparr>layer_src := Some ''https://example.com/a.png''\<rparr>"

definition ex_fill :: layer where
  "ex_fill = (ex_layer ''f1'' LFill)
     \<lparr>layer_fillImageDataUrl := Some ''data:image/png;base64,BAUG''\<rparr>"

definition ex_heap :: "layer list" where
  "ex_heap = [ex_image, ex_texture, ex_fill]"

definition ex_project :: project_file where
  "ex_project = \<lparr>project_name = ''demo'', project_createdAt = ''2024-01-01T00:00:00.000Z'',
     project_modelId = ''model3'', project_baseColor = ''#FF0000'',
     project_layers = [0, 1, 2]\<rparr>"

text \<open>
  Two layers with different identifiers whose rasters get the same archive path: an
  image layer named \<open>fill-a\<close> and a fill layer named \<open>a\<close>.
\<close>

definition clash_image :: layer where
  "clash_image = (ex_layer ''fill-a'' LImage)\<lparr>layer_src := Some ''data:image/png;base64,AQID''\<rparr>"

definition clash_fill :: layer where
  "clash_fill = (ex_layer ''a'' LFill)
     \<lparr>layer_fillImageDataUrl := Some ''data:image/png;base64,BAUG''\<rparr>"

definition clash_project :: project_file where
  "clash_project = \<lparr>project_name = ''demo'', project_createdAt = ''2024-01-01T00:00:00.000Z'',
     project_modelId = ''model3'', project_baseColor = ''#FF0000'',
     project_layers = [0, 1]\<rparr>"

text \<open>
  A stage like the editor's: the layer, the group of the design layers, the transformer
  with an anchor, a visible brush cursor with two circles, and a brush cursor that is
  already hidden.
\<close>

definition ex_nodes :: "konva_node list" where
  "ex_nodes =
     [\<lparr>className = ''Layer'', nodeType = ''Layer'', listening = True, visible = True,
       children = [1, 2, 4, 7]\<rparr>,
      \<lparr>className = ''Group'', nodeType = ''Group'', listening = True, visible = True,
       children = []\<rparr>,
      \<lparr>className = ''Transformer'', nodeType = ''Group'', listening = True, visible = True,
       children = [3]\<rparr>,
      \<lparr>className = ''Rect'', nodeType = ''Shape'', listening = True, visible = True,
       children = []\<rparr>,
      \<lparr>className = ''Group'', nodeType = ''Group'', listening = False, visible = True,
       children = [5, 6]\<rparr>,
      \<lparr>className = ''Circle'', nodeType = ''Shape'', listening = True, visible = True,
       children = []\<rparr>,
      \<lparr>className = ''Circle'', nodeType = ''Shape'', listening = True, visible = True,
       children = []\<rparr>,
      \<lparr>className = ''Group'', nodeType = ''Group'', listening = False, visible = False,
       children = [8, 9]\<rparr>,
      \<lparr>className = ''Circle'', nodeType = ''Shape'', listening = True, visible = True,
       children = []\<rparr>,
      \<lparr>className = ''Circle'', nodeType = ''Shape'', listening = True, visible = True,
       children = []\<rparr>]"

definition ex_stage :: stage where
  "ex_stage = editor_stage ex_nodes"

text \<open>A drawing that succeeds on every stage, and one that fails on a tainted canvas.\<close>

definition draws :: "stage \<Rightarrow> dom_exception option" where
  "draws s = None"

definition tainted :: "stage \<Rightarrow> dom_exception option" where
  "tainted s = Some SecurityError"

text \<open>
  The editor's stage with a line layer selected: the layer, the group of the design
  layers with the line, the transformer with an anchor, and the two circles that
  \<open>LineEndpointHandles\<close> renders as the line's start and end handles.
\<close>

definition line_nodes :: "konva_node list" where
  "line_nodes =
     [\<lparr>className = ''Layer'', nodeType = ''Layer'', listening = True, visible = True,
       children = [1, 3, 5, 6]\<rparr>,
      \<lparr>className = ''Group'', nodeType = ''Group'', listening = True, visible = True,
       children = [2]\<rparr>,
      \<lparr>className = ''Line'', nodeType = ''Shape'', listening = True, visible = True,
       children = []\<rparr>,
      \<lparr>className = ''Transformer'', nodeType = ''Group'', listening = True, visible = True,
       children = [4]\<rparr>,
      \<lparr>className = ''Rect'', nodeType = ''Shape'', listening = True, visible = True,
       children = []\<rparr>,
      \<lparr>className = ''Circle'', nodeType = ''Shape'', listening = True, visible = True,
       children = []\<rparr>,
      \<lparr>className = ''Circle'', nodeType = ''Shape'', listening = True, visible = True,
       children = []\<rparr>]"

definition line_stage :: stage where
  "line_stage = editor_stage line_nodes"

text \<open>
  A template that is opaque on the left half of the canvas, shapes that paint every
  pixel opaquely wherever they are moved, and a blank canvas.
\<close>

definition ex_raster :: "unit scene_node \<Rightarrow> string canvas" where
  "ex_raster n p =
     (case n of
        TemplateImage \<Rightarrow> (''template'', if fst p < 512 then 1 else 0)
      | _ \<Rightarrow> (''ink'', 1))"

definition ex_over :: "string rgba \<Rightarrow> string rgba \<Rightarrow> string rgba" where
  "ex_over source destination = (if snd source = 0 then destination else source)"

definition ex_blank :: "string canvas" where
  "ex_blank p = ([], 0)"

text \<open>An invocation in which every step succeeds, and one whose project upload fails.\<close>

definition ex_env :: "string publish_env" where
  "ex_env = \<lparr>supabase_configured = True,
     randomUUID_result = Resolves ''123e4567-e89b-12d3-a456-426614174000'',
     fetch_blob_result = Resolves ''png'',
     upload_preview_result = Resolves None,
     upload_project_result = Resolves None,
     getPublicUrl_result = Resolves ''https://example.com/preview.png'',
     insert_result = Resolves None\<rparr>"

definition ex_args :: publish_args where
  "ex_args = \<lparr>arg_title = '' My wrap '', arg_description = None, arg_modelId = ''model3'',
     arg_previewDataUrl = ''data:image/png;base64,AQID'', arg_projectBlob = ''zip'',
     arg_userId = ''u1''\<rparr>"

definition ex_world :: "project_file world" where
  "ex_world = \<lparr>in_memory_project = ex_project, requests = []\<rparr>"


section \<open>Properties of the transform synchronizer\<close>

lemma num_or_zero [simp]: "num_or a 0 = a"
  by (simp add: num_or_def)

lemma num_or_one_nonzero: "num_or a 1 \<noteq> 0"
  by (simp add: num_or_def)

lemma length_four:
  assumes "length pts = 4"
  obtains a b c d where "pts = [a, b, c, d]"
proof -
  from assms obtain a r1 where 1: "pts = a # r1" "length r1 = 3"
    by (cases pts) auto
  from 1 obtain b r2 where 2: "r1 = b # r2" "length r2 = 2"
    by (cases r1) auto
  from 2 obtain c r3 where 3: "r2 = c # r3" "length r3 = 1"
    by (cases r2) auto
  from 3 obtain d where 4: "r3 = [d]"
    by (cases r3) auto
  from 1 2 3 4 that show thesis by simp
qed


text \<open>
  Claim C1.  A resize gesture starts on a layer: \<open>handleTransformStart\<close> finds it and takes
  the snapshot \<open>sd\<close>, with width \<open>W\<close>, height \<open>H\<close> and scale \<open>(sx, sy)\<close>.  When the gesture
  ends on a rectangle layer with the node reporting the scale \<open>(sx', sy')\<close>,
  \<open>handleTransformEnd\<close> stores width \<open>|W * (sx' / sx)|\<close>, height \<open>|H * (sy' / sy)|\<close> and the
  scale \<open>(1, 1)\<close> in every layer with that identifier, together with the node's position
  and rotation, and changes nothing else.  The snapshot's scale factors are never
  zero, so the quotients are those of the code.
\<close>

theorem rect_transform_end:
  assumes "find_layer layers0 layerId = Some l0"
    and "handleTransformStart layers0 layerId ref0 = Some sd"
    and "start_width sd = Some W" and "start_height sd = Some H"
    and "start_scaleX sd = sx" and "start_scaleY sd = sy"
    and "find_layer layers layerId = Some l" and "layer_type l = LRect"
  shows "sx \<noteq> 0 \<and> sy \<noteq> 0 \<and>
         handleTransformEnd node layers layerId (handleTransformStart layers0 layerId ref0) =
           (map (\<lambda>l'. if layer_id l' = layerId
                   then l'\<lparr>layer_x := node_x node, layer_y := node_y node,
                           layer_rotation := node_rotation node,
                           layer_width := Some \<bar>W * (node_scaleX node / sx)\<bar>,
                           layer_height := Some \<bar>H * (node_scaleY node / sy)\<bar>,
                           layer_scaleX := 1, layer_scaleY := 1\<rparr>
                   else l') layers, None)"
proof -
  from assms(1,2) have sd: "sd = \<lparr>start_layerId = layerId, start_width = layer_width l0,
      start_height = layer_height l0, start_scaleX = num_or (layer_scaleX l0) 1,
      start_scaleY = num_or (layer_scaleY l0) 1\<rparr>"
    by (simp add: handleTransformStart_def)
  have nz: "sx \<noteq> 0 \<and> sy \<noteq> 0"
    using assms(5,6) num_or_one_nonzero [of "layer_scaleX l0"]
      num_or_one_nonzero [of "layer_scaleY l0"] by (auto simp: sd)
  have "handleTransformEnd node layers layerId (Some sd) =
           (map (\<lambda>l'. if layer_id l' = layerId
                   then l'\<lparr>layer_x := node_x node, layer_y := node_y node,
                           layer_rotation := node_rotation node,
                           layer_width := Some \<bar>W * (node_scaleX node / sx)\<bar>,
                           layer_height := Some \<bar>H * (node_scaleY node / sy)\<bar>,
                           layer_scaleX := 1, layer_scaleY := 1\<rparr>
                   else l') layers, None)"
    using assms(3-8)
    by (simp add: handleTransformEnd_def Let_def updateLayer_def merge_patch_def no_patch_def
        opt_num_or_def)
  with nz assms(2) show ?thesis by simp
qed

theorem rect_transform_end_witness:
  "find_layer [ex_circle, ex_rect] ''r1'' = Some ex_rect \<and>
   handleTransformStart [ex_circle, ex_rect] ''r1'' None =
     Some \<lparr>start_layerId = ''r1'', start_width = Some 200, start_height = Some 100,
            start_scaleX = 2, start_scaleY = 1\<rparr> \<and>
   layer_type ex_rect = LRect \<and>
   handleTransformEnd ex_node [ex_circle, ex_rect] ''r1''
       (handleTransformStart [ex_circle, ex_rect] ''r1'' None) =
     ([ex_circle,
       ex_rect\<lparr>layer_x := 10, layer_y := 20, layer_rotation := 90,
               layer_width := Some 300, layer_height := Some 200,
               layer_scaleX := 1, layer_scaleY := 1\<rparr>], None)"
  using rect_transform_end [of "[ex_circle, ex_rect]" "''r1''" ex_rect None
      "\<lparr>start_layerId = ''r1'', start_width = Some 200, start_height = Some 100,
        start_scaleX = 2, start_scaleY = 1\<rparr>" 200 100 2 1 "[ex_circle, ex_rect]" ex_rect ex_node]
  by (simp add: ex_circle_def ex_rect_def ex_layer_def ex_node_def find_layer_def
      handleTransformStart_def num_or_def)



text \<open>
  Claim C7.  For every draggable layer, ending a drag on its node stores the node's
  position in the x and y fields of every layer with that identifier; every other field
  of that layer, and every other layer, is unchanged.
\<close>

theorem drag_end_persists_position:
  assumes "draggable activeTool layer"
  shows "fire_dragend layer e layers =
           map (\<lambda>l. if layer_id l = layer_id layer
                     then l\<lparr>layer_x := node_x e, layer_y := node_y e\<rparr> else l) layers"
  using assms
  by (simp add: fire_dragend_def onDragEnd_def draggable_def handleDragEnd_def updateLayer_def
      merge_patch_def no_patch_def)

theorem drag_end_persists_position_witness:
  "draggable SelectTool ex_rect \<and>
   fire_dragend ex_rect ex_node [ex_rect, ex_circle] =
     [ex_rect\<lparr>layer_x := 10, layer_y := 20\<rparr>, ex_circle]"
  using drag_end_persists_position [of SelectTool ex_rect ex_node "[ex_rect, ex_circle]"]
  by (simp add: draggable_def isBrushLayer_def ex_rect_def ex_circle_def ex_layer_def
      ex_node_def)

text \<open>
  Claim C5.  For a line layer with a four-number point pair, a drag-move of the start
  handle at the absolute position \<open>(hx, hy)\<close> sets the entries 0 and 1 of the points to
  \<open>(hx - x, hy - y)\<close>, where \<open>(x, y)\<close> is the layer's position, and keeps the entries 2 and
  3; a drag-move of the end handle sets the entries 2 and 3 and keeps the entries 0 and
  1.  No other field and no other layer changes.
\<close>

theorem endpoint_drag:
  assumes "find_layer layers layerId = Some l" and "layer_type l = LLine"
    and "layer_points l = Some pts" and "length pts = 4"
  shows "startHandle_dragMove hx hy layers layerId =
           map (\<lambda>l'. if layer_id l' = layerId
                 then l'\<lparr>layer_points :=
                        Some (pts[0 := Some (hx - layer_x l), 1 := Some (hy - layer_y l)])\<rparr>
                 else l') layers \<and>
         endHandle_dragMove hx hy layers layerId =
           map (\<lambda>l'. if layer_id l' = layerId
                 then l'\<lparr>layer_points :=
                        Some (pts[2 := Some (hx - layer_x l), 3 := Some (hy - layer_y l)])\<rparr>
                 else l') layers"
proof -
  from assms(4) obtain a b c d where pts: "pts = [a, b, c, d]"
    by (rule length_four)
  show ?thesis
    using assms(1-3)
    by (simp add: startHandle_dragMove_def endHandle_dragMove_def Let_def updateLayer_def
        merge_patch_def no_patch_def points_or_default_def pts js_nth_def
        numeral_3_eq_3 numeral_2_eq_2)
qed

theorem endpoint_drag_witness:
  "find_layer [ex_rect, ex_line] ''n1'' = Some ex_line \<and> layer_type ex_line = LLine \<and>
   layer_points ex_line = Some [Some 0, Some 0, Some 100, Some 50] \<and>
   length [Some 0, Some 0, Some 100, Some (50::real)] = 4 \<and>
   startHandle_dragMove 15 27 [ex_rect, ex_line] ''n1'' =
     [ex_rect, ex_line\<lparr>layer_points := Some [Some 10, Some 20, Some 100, Some 50]\<rparr>] \<and>
   endHandle_dragMove 15 27 [ex_rect, ex_line] ''n1'' =
     [ex_rect, ex_line\<lparr>layer_points := Some [Some 0, Some 0, Some 10, Some 20]\<rparr>]"
  using endpoint_drag [of "[ex_rect, ex_line]" "''n1''" ex_line
      "[Some 0, Some 0, Some 100, Some 50]" 15 27]
  by (simp add: ex_line_def ex_rect_def ex_layer_def find_layer_def)


section \<open>Properties of the project serializer\<close>

lemma startsWith_data_nonempty: "startsWith v ''data:'' \<Longrightarrow> v \<noteq> []"
  by (auto simp: startsWith_def)

lemma truthy_embedded:
  "(truthy_string s \<and> startsWith (the s) ''data:'') = embedded s"
  by (cases s) (auto simp: truthy_string_def embedded_def dest: startsWith_data_nonempty)

lemma src_cond:
  "((layer_type l = LImage \<or> layer_type l = LTexture) \<and> truthy_string (layer_src l)
      \<and> startsWith (the (layer_src l)) ''data:'') = has_embedded_src l"
  using truthy_embedded [of "layer_src l"] by (auto simp: has_embedded_src_def)

lemma fill_cond:
  "(layer_type l = LFill \<and> truthy_string (layer_fillImageDataUrl l)
      \<and> startsWith (the (layer_fillImageDataUrl l)) ''data:'') = has_embedded_fill l"
  using truthy_embedded [of "layer_fillImageDataUrl l"] by (auto simp: has_embedded_fill_def)

text \<open>One step of the map: a fresh object is appended, the store below it is kept.\<close>

lemma cleanLayer_eq:
  assumes "a < length h"
  shows "cleanLayer h images a =
           (h @ [manifest_entry (h ! a)], images @ image_entries_of (h ! a), length h)"
proof -
  let ?l = "h ! a"
  have rd: "(h @ [v]) ! a = ?l" for v
    using assms by (simp add: nth_append)
  have rd2: "((h @ [v])[length h := w]) ! a = ?l" for v w
    using assms by (simp add: nth_append)
  have upd: "(h @ [v])[length h := w] = h @ [w]" for v w
    by simp
  have new: "(h @ [v]) ! length h = v" for v
    by simp
  consider (sf) "has_embedded_src ?l" "has_embedded_fill ?l"
    | (s) "has_embedded_src ?l" "\<not> has_embedded_fill ?l"
    | (f) "\<not> has_embedded_src ?l" "has_embedded_fill ?l"
    | (n) "\<not> has_embedded_src ?l" "\<not> has_embedded_fill ?l"
    by blast
  then show ?thesis
  proof cases
    case sf
    then show ?thesis
      unfolding cleanLayer_def alloc_def Let_def
      by (simp only: prod.case rd rd2 src_cond fill_cond if_True upd new)
         (simp add: manifest_entry_def image_entries_of_def src_path_def fill_path_def)
  next
    case s
    then show ?thesis
      unfolding cleanLayer_def alloc_def Let_def
      by (simp only: prod.case rd rd2 src_cond fill_cond if_True if_False upd new)
         (simp add: manifest_entry_def image_entries_of_def src_path_def fill_path_def)
  next
    case f
    then show ?thesis
      unfolding cleanLayer_def alloc_def Let_def
      by (simp only: prod.case rd rd2 src_cond fill_cond if_True if_False upd new)
         (simp add: manifest_entry_def image_entries_of_def src_path_def fill_path_def)
  next
    case n
    then show ?thesis
      unfolding cleanLayer_def alloc_def Let_def
      by (simp only: prod.case rd rd2 src_cond fill_cond if_True if_False upd new)
         (simp add: manifest_entry_def image_entries_of_def src_path_def fill_path_def)
  qed
qed

lemma cleanLayers_eq:
  assumes "\<forall>a \<in> set as. a < length h"
  shows "\<exists>cs. cleanLayers h images as =
           (h @ map (\<lambda>a. manifest_entry (h ! a)) as,
            images @ concat (map (\<lambda>a. image_entries_of (h ! a)) as), cs) \<and>
          map (\<lambda>c. (h @ map (\<lambda>a. manifest_entry (h ! a)) as) ! c) cs =
            map (\<lambda>a. manifest_entry (h ! a)) as"
  using assms
proof (induction as arbitrary: h images)
  case Nil
  then show ?case by simp
next
  case (Cons a as)
  let ?v = "manifest_entry (h ! a)"
  let ?h1 = "h @ [?v]"
  let ?vs = "map (\<lambda>b. manifest_entry (h ! b)) as"
  have a: "a < length h" using Cons.prems by simp
  have valid: "\<forall>b \<in> set as. b < length ?h1" using Cons.prems by auto
  have same: "map (\<lambda>b. manifest_entry (?h1 ! b)) as = ?vs"
    using Cons.prems by (auto simp: nth_append)
  have same2: "map (\<lambda>b. image_entries_of (?h1 ! b)) as = map (\<lambda>b. image_entries_of (h ! b)) as"
    using Cons.prems by (auto simp: nth_append)
  from Cons.IH [OF valid, of "images @ image_entries_of (h ! a)"]
  obtain cs where cs: "cleanLayers ?h1 (images @ image_entries_of (h ! a)) as =
      (?h1 @ ?vs, (images @ image_entries_of (h ! a)) @
         concat (map (\<lambda>b. image_entries_of (h ! b)) as), cs)"
    and rd: "map (\<lambda>c. (?h1 @ ?vs) ! c) cs = ?vs"
    unfolding same same2 by blast
  have hd: "(h @ ?v # ?vs) ! length h = ?v"
    by simp
  have "cleanLayers h images (a # as) =
          (h @ map (\<lambda>b. manifest_entry (h ! b)) (a # as),
           images @ concat (map (\<lambda>b. image_entries_of (h ! b)) (a # as)), length h # cs)"
    by (simp add: cleanLayer_eq [OF a] cs)
  moreover have "map (\<lambda>c. (h @ map (\<lambda>b. manifest_entry (h ! b)) (a # as)) ! c) (length h # cs)
      = map (\<lambda>b. manifest_entry (h ! b)) (a # as)"
    using rd hd by simp
  ultimately show ?case by blast
qed

lemma entries_rasters:
  "map (\<lambda>e. (image_filename e, image_dataUrl e)) (image_entries_of l) = rasters_of l"
  by (simp add: image_entries_of_def rasters_of_def)

lemma entries_rasters_concat:
  "map (\<lambda>e. (image_filename e, image_dataUrl e)) (concat (map image_entries_of ls)) = rasters ls"
  by (induction ls) (simp_all add: rasters_def entries_rasters)

lemma replace_images_prefix:
  "replace_first ''images/'' [] (''images/'' @ s) = s"
  by simp

lemma raster_path_prefix:
  "(p, u) \<in> set (rasters ls) \<Longrightarrow> \<exists>s. p = ''images/'' @ s @ ''.png''"
  by (auto simp: rasters_def rasters_of_def src_path_def fill_path_def split: if_splits)


lemma addImages_ok:
  assumes "\<forall>e \<in> set imgs. \<exists>b. dataUrlToUint8Array atob (image_dataUrl e) = Inr b"
    and "\<forall>e \<in> set imgs. \<exists>s. image_filename e = ''images/'' @ s"
  shows "\<exists>z'. addImages atob z imgs = Inr z' \<and>
           (\<forall>p. p \<notin> image_filename ` set imgs \<longrightarrow> z' p = z p) \<and>
           (distinct (map image_filename imgs) \<longrightarrow>
              (\<forall>e \<in> set imgs. \<exists>b. dataUrlToUint8Array atob (image_dataUrl e) = Inr b
                  \<and> z' (image_filename e) = Some (BinaryFile b)))"
  using assms
proof (induction imgs arbitrary: z)
  case Nil
  then show ?case by simp
next
  case (Cons img imgs)
  from Cons.prems(1) obtain b where b: "dataUrlToUint8Array atob (image_dataUrl img) = Inr b"
    by auto
  from Cons.prems(2) obtain s where s: "image_filename img = ''images/'' @ s"
    by auto
  let ?z1 = "z(image_filename img \<mapsto> BinaryFile b)"
  have step: "addImages atob z (img # imgs) = addImages atob ?z1 imgs"
    by (simp add: b s)
  have p1: "\<forall>e \<in> set imgs. \<exists>b. dataUrlToUint8Array atob (image_dataUrl e) = Inr b"
    using Cons.prems(1) by simp
  have p2: "\<forall>e \<in> set imgs. \<exists>s. image_filename e = ''images/'' @ s"
    using Cons.prems(2) by simp
  from Cons.IH [OF p1 p2, of ?z1] obtain z' where
    z': "addImages atob ?z1 imgs = Inr z'"
    and frame: "\<forall>p. p \<notin> image_filename ` set imgs \<longrightarrow> z' p = ?z1 p"
    and content: "distinct (map image_filename imgs) \<longrightarrow>
              (\<forall>e \<in> set imgs. \<exists>b. dataUrlToUint8Array atob (image_dataUrl e) = Inr b
                  \<and> z' (image_filename e) = Some (BinaryFile b))"
    by blast
  have f: "\<forall>p. p \<notin> image_filename ` set (img # imgs) \<longrightarrow> z' p = z p"
    using frame by auto
  have c: "distinct (map image_filename (img # imgs)) \<longrightarrow>
              (\<forall>e \<in> set (img # imgs). \<exists>b. dataUrlToUint8Array atob (image_dataUrl e) = Inr b
                  \<and> z' (image_filename e) = Some (BinaryFile b))"
  proof
    assume d: "distinct (map image_filename (img # imgs))"
    then have notin: "image_filename img \<notin> image_filename ` set imgs" by simp
    with frame have "z' (image_filename img) = Some (BinaryFile b)" by simp
    moreover from d content have "\<forall>e \<in> set imgs. \<exists>b. dataUrlToUint8Array atob (image_dataUrl e) = Inr b
                  \<and> z' (image_filename e) = Some (BinaryFile b)" by simp
    ultimately show "\<forall>e \<in> set (img # imgs). \<exists>b. dataUrlToUint8Array atob (image_dataUrl e) = Inr b
                  \<and> z' (image_filename e) = Some (BinaryFile b)"
      using b by simp
  qed
  from step z' f c show ?case by metis
qed

lemma projectToBlob_unfold:
  assumes "\<forall>a \<in> set (project_layers project). a < length h"
  shows "projectToBlob atob now h project =
     (let ls = map (\<lambda>a. h ! a) (project_layers project);
          images = concat (map image_entries_of ls);
          zip1 = Map.empty(''manifest.json'' \<mapsto> ManifestJson
                   \<lparr>manifest_version = ''2.0'',
                      manifest_name = project_name project,
                      manifest_createdAt = project_createdAt project,
                      manifest_modifiedAt = now,
                      manifest_modelId = project_modelId project,
                      manifest_baseColor = project_baseColor project,
                      manifest_layers = map manifest_entry ls\<rparr>)
      in (h @ map manifest_entry ls,
          if images \<noteq> [] then addImages atob (zip1(''images/'' \<mapsto> Folder)) images
          else Inr zip1))"
proof -
  from cleanLayers_eq [OF assms, of "[]"] obtain cs where
    cs: "cleanLayers h [] (project_layers project) =
           (h @ map (\<lambda>a. manifest_entry (h ! a)) (project_layers project),
            concat (map (\<lambda>a. image_entries_of (h ! a)) (project_layers project)), cs)"
    and rd: "map (\<lambda>c. (h @ map (\<lambda>a. manifest_entry (h ! a)) (project_layers project)) ! c) cs =
            map (\<lambda>a. manifest_entry (h ! a)) (project_layers project)"
    by auto
  show ?thesis
    unfolding projectToBlob_def cs
    by (simp add: rd Let_def comp_def)
qed

text \<open>
  Claim C10.  Serialization does not write to its input: every object that is in the
  store before the call is the same after it, whether the call returns an archive or
  fails; in particular every layer of the project has all its fields, \<open>src\<close> and
  \<open>fillImageDataUrl\<close> included, as before.  The path substitution is done on the fresh
  copies, which lie above the initial store.
\<close>

theorem projectToBlob_preserves_input:
  assumes "\<forall>a \<in> set (project_layers project). a < length h"
  shows "take (length h) (fst (projectToBlob atob now h project)) = h \<and>
         map (\<lambda>a. fst (projectToBlob atob now h project) ! a) (project_layers project) =
           map (\<lambda>a. h ! a) (project_layers project)"
  using assms
  by (auto simp: projectToBlob_unfold [OF assms] Let_def nth_append)

theorem projectToBlob_preserves_input_witness:
  "project_layers ex_project = [0, 1, 2] \<and> length ex_heap = 3 \<and>
   take (length ex_heap)
     (fst (projectToBlob ex_atob ''2024-06-01T12:00:00.000Z'' ex_heap ex_project)) = ex_heap"
proof -
  have refs: "\<forall>a \<in> set (project_layers ex_project). a < length ex_heap"
    by (simp add: ex_heap_def ex_project_def)
  have "project_layers ex_project = [0, 1, 2] \<and> length ex_heap = 3"
    by (simp add: ex_heap_def ex_project_def)
  with projectToBlob_preserves_input [OF refs] show ?thesis
    by blast
qed

lemma manifest_not_image: "''manifest.json'' \<noteq> ''images/'' @ s"
  by simp

lemma ex_decode:
  "dataUrlToUint8Array ex_atob ''data:image/png;base64,AQID'' = Inr [1, 2, 3]"
  "dataUrlToUint8Array ex_atob ''data:image/png;base64,BAUG'' = Inr [4, 5, 6]"
  by (simp_all add: dataUrlToUint8Array_def ex_atob_def Let_def)

lemma ex_rasters:
  "rasters [ex_image, ex_texture, ex_fill] =
     [(''images/i1.png'', ''data:image/png;base64,AQID''),
      (''images/fill-f1.png'', ''data:image/png;base64,BAUG'')]"
  by (simp add: rasters_def rasters_of_def has_embedded_src_def has_embedded_fill_def
      embedded_def startsWith_def src_path_def fill_path_def
      ex_image_def ex_texture_def ex_fill_def ex_layer_def)

lemma clash_entries:
  "image_entries_of clash_image =
     [\<lparr>image_layerId = ''fill-a'', image_kind = SrcKind,
       image_dataUrl = ''data:image/png;base64,AQID'', image_filename = ''images/fill-a.png''\<rparr>]"
  "image_entries_of clash_fill =
     [\<lparr>image_layerId = ''a'', image_kind = FillImageKind,
       image_dataUrl = ''data:image/png;base64,BAUG'', image_filename = ''images/fill-a.png''\<rparr>]"
  by (simp_all add: image_entries_of_def has_embedded_src_def
      has_embedded_fill_def embedded_def startsWith_def src_path_def fill_path_def
      clash_image_def clash_fill_def ex_layer_def)

lemma projectToBlob_archive:
  assumes refs: "\<forall>a \<in> set (project_layers project). a < length h"
    and ls: "ls = map (\<lambda>a. h ! a) (project_layers project)"
    and dec: "\<forall>(p, u) \<in> set (rasters ls). \<exists>b. dataUrlToUint8Array atob u = Inr b"
    and dist: "distinct (map fst (rasters ls))"
  shows "\<exists>z. snd (projectToBlob atob now h project) = Inr z \<and>
           z ''manifest.json'' = Some (ManifestJson
               \<lparr>manifest_version = ''2.0'',
                manifest_name = project_name project,
                manifest_createdAt = project_createdAt project,
                manifest_modifiedAt = now,
                manifest_modelId = project_modelId project,
                manifest_baseColor = project_baseColor project,
                manifest_layers = map manifest_entry ls\<rparr>) \<and>
           (\<forall>(p, u) \<in> set (rasters ls).
               \<exists>b. dataUrlToUint8Array atob u = Inr b \<and> z p = Some (BinaryFile b))"
proof -
  define images where "images = concat (map image_entries_of ls)"
  define m where "m = ManifestJson
               \<lparr>manifest_version = ''2.0'',
                manifest_name = project_name project,
                manifest_createdAt = project_createdAt project,
                manifest_modifiedAt = now,
                manifest_modelId = project_modelId project,
                manifest_baseColor = project_baseColor project,
                manifest_layers = map manifest_entry ls\<rparr>"
  define zip1 where "zip1 = Map.empty(''manifest.json'' \<mapsto> m)"
  define zip2 where "zip2 = zip1(''images/'' \<mapsto> Folder)"
  have res: "snd (projectToBlob atob now h project) =
      (if images \<noteq> [] then addImages atob zip2 images else Inr zip1)"
    unfolding images_def m_def zip1_def zip2_def
    by (simp add: projectToBlob_unfold [OF refs] Let_def ls)
  have pairs: "map (\<lambda>e. (image_filename e, image_dataUrl e)) images = rasters ls"
    unfolding images_def by (rule entries_rasters_concat)
  have mem: "(image_filename e, image_dataUrl e) \<in> set (rasters ls)" if "e \<in> set images" for e
  proof -
    from that have "(image_filename e, image_dataUrl e)
        \<in> (\<lambda>e. (image_filename e, image_dataUrl e)) ` set images"
      by (rule imageI)
    then show ?thesis
      by (simp only: pairs [symmetric] set_map)
  qed
  have names: "map image_filename images = map fst (rasters ls)"
    by (simp only: pairs [symmetric] map_map comp_def fst_conv)
  have h1: "\<forall>e \<in> set images. \<exists>b. dataUrlToUint8Array atob (image_dataUrl e) = Inr b"
  proof
    fix e assume "e \<in> set images"
    from mem [OF this] dec show "\<exists>b. dataUrlToUint8Array atob (image_dataUrl e) = Inr b"
      by blast
  qed
  have h2: "\<forall>e \<in> set images. \<exists>s. image_filename e = ''images/'' @ s"
  proof
    fix e assume "e \<in> set images"
    from raster_path_prefix [OF mem [OF this]]
    show "\<exists>s. image_filename e = ''images/'' @ s" by blast
  qed
  from addImages_ok [OF h1 h2, of zip2] obtain z' where
    z': "addImages atob zip2 images = Inr z'"
    and frame: "\<forall>p. p \<notin> image_filename ` set images \<longrightarrow> z' p = zip2 p"
    and content: "distinct (map image_filename images) \<longrightarrow>
              (\<forall>e \<in> set images. \<exists>b. dataUrlToUint8Array atob (image_dataUrl e) = Inr b
                  \<and> z' (image_filename e) = Some (BinaryFile b))"
    by blast
  have zm: "zip1 ''manifest.json'' = Some m" "zip2 ''manifest.json'' = Some m"
    by (simp_all add: zip1_def zip2_def)
  show ?thesis
  proof (cases "images = []")
    case True
    have "rasters ls = map (\<lambda>e. (image_filename e, image_dataUrl e)) images"
      by (rule pairs [symmetric])
    also have "\<dots> = []" by (simp only: True list.map)
    finally have "rasters ls = []" .
    with True res zm show ?thesis
      unfolding m_def [symmetric] by simp
  next
    case False
    have "''manifest.json'' \<notin> image_filename ` set images"
    proof
      assume "''manifest.json'' \<in> image_filename ` set images"
      then obtain e where "e \<in> set images" "image_filename e = ''manifest.json''" by auto
      with h2 obtain s where "''manifest.json'' = ''images/'' @ s" by metis
      then show False by simp
    qed
    with frame zm have mm: "z' ''manifest.json'' = Some m" by simp
    have c: "\<forall>(p, u) \<in> set (rasters ls).
               \<exists>b. dataUrlToUint8Array atob u = Inr b \<and> z' p = Some (BinaryFile b)"
    proof (clarify)
      fix p u assume "(p, u) \<in> set (rasters ls)"
      then have "(p, u) \<in> (\<lambda>e. (image_filename e, image_dataUrl e)) ` set images"
        by (simp only: pairs [symmetric] set_map)
      then obtain e where e: "e \<in> set images" "image_filename e = p" "image_dataUrl e = u"
        by auto
      from dist names have "distinct (map image_filename images)" by simp
      with content e show "\<exists>b. dataUrlToUint8Array atob u = Inr b \<and> z' p = Some (BinaryFile b)"
        by blast
    qed
    from False res z' have "snd (projectToBlob atob now h project) = Inr z'" by simp
    with mm c show ?thesis
      unfolding m_def [symmetric] by blast
  qed
qed

lemma addImages_frame:
  assumes "addImages atob z imgs = Inr z'"
    and "\<forall>e \<in> set imgs. \<exists>s. image_filename e = ''images/'' @ s"
    and "p \<notin> image_filename ` set imgs"
  shows "z' p = z p"
  using assms
proof (induction imgs arbitrary: z)
  case Nil
  then show ?case by simp
next
  case (Cons img imgs)
  from Cons.prems(2) obtain s where s: "image_filename img = ''images/'' @ s"
    by auto
  from Cons.prems(1) obtain b where b: "dataUrlToUint8Array atob (image_dataUrl img) = Inr b"
    by (cases "dataUrlToUint8Array atob (image_dataUrl img)") simp_all
  from Cons.prems(1) have step: "addImages atob (z(image_filename img \<mapsto> BinaryFile b)) imgs = Inr z'"
    by (simp add: b s)
  have p2: "\<forall>e \<in> set imgs. \<exists>s. image_filename e = ''images/'' @ s"
    using Cons.prems(2) by simp
  have p3: "p \<notin> image_filename ` set imgs" "p \<noteq> image_filename img"
    using Cons.prems(3) by auto
  from Cons.IH [OF step p2 p3(1)] p3(2) show ?case
    by simp
qed

text \<open>
  The manifest of every archive that the serializer returns: the layers in the
  project's order, each with exactly its embedded raster field replaced by the archive
  path and every other field kept.  A raster field is replaced if and only if it is
  embedded.
\<close>

lemma projectToBlob_manifest:
  assumes refs: "\<forall>a \<in> set (project_layers project). a < length h"
    and ret: "snd (projectToBlob atob now h project) = Inr z"
  shows "z ''manifest.json'' = Some (ManifestJson
               \<lparr>manifest_version = ''2.0'',
                manifest_name = project_name project,
                manifest_createdAt = project_createdAt project,
                manifest_modifiedAt = now,
                manifest_modelId = project_modelId project,
                manifest_baseColor = project_baseColor project,
                manifest_layers = map manifest_entry (map (\<lambda>a. h ! a) (project_layers project))\<rparr>)"
proof -
  define ls where "ls = map (\<lambda>a. h ! a) (project_layers project)"
  define images where "images = concat (map image_entries_of ls)"
  define m where "m = ManifestJson
               \<lparr>manifest_version = ''2.0'',
                manifest_name = project_name project,
                manifest_createdAt = project_createdAt project,
                manifest_modifiedAt = now,
                manifest_modelId = project_modelId project,
                manifest_baseColor = project_baseColor project,
                manifest_layers = map manifest_entry ls\<rparr>"
  define zip1 where "zip1 = Map.empty(''manifest.json'' \<mapsto> m)"
  define zip2 where "zip2 = zip1(''images/'' \<mapsto> Folder)"
  have res: "snd (projectToBlob atob now h project) =
      (if images \<noteq> [] then addImages atob zip2 images else Inr zip1)"
    unfolding images_def m_def zip1_def zip2_def ls_def
    by (simp add: projectToBlob_unfold [OF refs] Let_def)
  have pairs: "map (\<lambda>e. (image_filename e, image_dataUrl e)) images = rasters ls"
    unfolding images_def by (rule entries_rasters_concat)
  have h2: "\<forall>e \<in> set images. \<exists>s. image_filename e = ''images/'' @ s"
  proof
    fix e assume "e \<in> set images"
    then have "(image_filename e, image_dataUrl e)
        \<in> (\<lambda>e. (image_filename e, image_dataUrl e)) ` set images"
      by (rule imageI)
    then have "(image_filename e, image_dataUrl e) \<in> set (rasters ls)"
      by (simp only: pairs [symmetric] set_map)
    from raster_path_prefix [OF this]
    show "\<exists>s. image_filename e = ''images/'' @ s" by blast
  qed
  have notin: "''manifest.json'' \<notin> image_filename ` set images"
  proof
    assume "''manifest.json'' \<in> image_filename ` set images"
    then obtain e where "e \<in> set images" "image_filename e = ''manifest.json''" by auto
    with h2 obtain s where "''manifest.json'' = ''images/'' @ s" by metis
    then show False by simp
  qed
  have zm: "zip1 ''manifest.json'' = Some m" "zip2 ''manifest.json'' = Some m"
    by (simp_all add: zip1_def zip2_def)
  have "z ''manifest.json'' = Some m"
  proof (cases "images = []")
    case True
    with res ret zm show ?thesis by simp
  next
    case False
    with res ret have "addImages atob zip2 images = Inr z" by simp
    from addImages_frame [OF this h2 notin] zm show ?thesis by simp
  qed
  then show ?thesis
    unfolding m_def ls_def .
qed

lemma path_not_embedded: "\<not> startsWith (''images/'' @ s) ''data:''"
  by (simp add: startsWith_def)

lemma manifest_entry_replaced:
  "(layer_src (manifest_entry l) \<noteq> layer_src l) = has_embedded_src l"
  "(layer_fillImageDataUrl (manifest_entry l) \<noteq> layer_fillImageDataUrl l) = has_embedded_fill l"
  using path_not_embedded [of "layer_id l @ ''.png''"]
    path_not_embedded [of "''fill-'' @ layer_id l @ ''.png''"]
  by (auto simp: manifest_entry_def has_embedded_src_def has_embedded_fill_def embedded_def
      src_path_def fill_path_def split: option.splits)

text \<open>
  The images of the archive: when the archive paths of the embedded rasters are
  pairwise distinct and every embedded payload decodes, the serializer returns an
  archive that holds at each such path the decoded bytes of the data URL that the field
  held.
\<close>

lemma projectToBlob_distinct_paths:
  assumes refs: "\<forall>a \<in> set (project_layers project). a < length h"
    and ls: "ls = map (\<lambda>a. h ! a) (project_layers project)"
    and dec: "\<forall>(p, u) \<in> set (rasters ls). \<exists>b. dataUrlToUint8Array atob u = Inr b"
    and dist: "distinct (map fst (rasters ls))"
  shows "(\<exists>z. snd (projectToBlob atob now h project) = Inr z \<and>
           z ''manifest.json'' = Some (ManifestJson
               \<lparr>manifest_version = ''2.0'',
                manifest_name = project_name project,
                manifest_createdAt = project_createdAt project,
                manifest_modifiedAt = now,
                manifest_modelId = project_modelId project,
                manifest_baseColor = project_baseColor project,
                manifest_layers = map manifest_entry ls\<rparr>) \<and>
           (\<forall>(p, u) \<in> set (rasters ls).
               \<exists>b. dataUrlToUint8Array atob u = Inr b \<and> z p = Some (BinaryFile b))) \<and>
         (\<forall>l \<in> set ls.
            (layer_src (manifest_entry l) \<noteq> layer_src l) = has_embedded_src l \<and>
            (layer_fillImageDataUrl (manifest_entry l) \<noteq> layer_fillImageDataUrl l)
              = has_embedded_fill l \<and>
            manifest_entry l =
              l\<lparr>layer_src := (if has_embedded_src l then Some (src_path l) else layer_src l),
                layer_fillImageDataUrl :=
                  (if has_embedded_fill l then Some (fill_path l)
                   else layer_fillImageDataUrl l)\<rparr>)"
  using projectToBlob_archive [OF refs ls dec dist, of now]
  by (simp add: manifest_entry_replaced) (simp add: manifest_entry_def)


lemma projectToBlob_distinct_paths_example:
  "project_layers ex_project = [0, 1, 2] \<and> length ex_heap = 3 \<and>
   distinct (map fst (rasters (map (\<lambda>a. ex_heap ! a) (project_layers ex_project)))) \<and>
   (\<exists>z. snd (projectToBlob ex_atob ''2024-06-01T12:00:00.000Z'' ex_heap ex_project) = Inr z \<and>
        z ''images/i1.png'' = Some (BinaryFile [1, 2, 3]) \<and>
        z ''images/fill-f1.png'' = Some (BinaryFile [4, 5, 6]))"
proof -
  have ls: "map (\<lambda>a. ex_heap ! a) (project_layers ex_project) = [ex_image, ex_texture, ex_fill]"
    by (simp add: ex_heap_def ex_project_def)
  have refs: "\<forall>a \<in> set (project_layers ex_project). a < length ex_heap"
    by (simp add: ex_heap_def ex_project_def)
  have dec: "\<forall>(p, u) \<in> set (rasters [ex_image, ex_texture, ex_fill]).
      \<exists>b. dataUrlToUint8Array ex_atob u = Inr b"
    by (simp add: ex_rasters ex_decode)
  have dist: "distinct (map fst (rasters [ex_image, ex_texture, ex_fill]))"
    by (simp add: ex_rasters)
  from projectToBlob_distinct_paths [OF refs ls [symmetric] dec dist,
      of "''2024-06-01T12:00:00.000Z''"]
  obtain z where
    z: "snd (projectToBlob ex_atob ''2024-06-01T12:00:00.000Z'' ex_heap ex_project) = Inr z"
    and c: "\<forall>(p, u) \<in> set (rasters [ex_image, ex_texture, ex_fill]).
               \<exists>b. dataUrlToUint8Array ex_atob u = Inr b \<and> z p = Some (BinaryFile b)"
    by blast
  from c have "z ''images/i1.png'' = Some (BinaryFile [1, 2, 3])"
    and "z ''images/fill-f1.png'' = Some (BinaryFile [4, 5, 6])"
    by (simp_all add: ex_rasters ex_decode)
  moreover have "project_layers ex_project = [0, 1, 2] \<and> length ex_heap = 3"
    by (simp add: ex_heap_def ex_project_def)
  ultimately show ?thesis using z dist ls by auto
qed

lemma clash_manifest:
  "map manifest_entry [clash_image, clash_fill] =
     [clash_image\<lparr>layer_src := Some ''images/fill-a.png''\<rparr>,
      clash_fill\<lparr>layer_fillImageDataUrl := Some ''images/fill-a.png''\<rparr>]"
  by (simp add: manifest_entry_def has_embedded_src_def has_embedded_fill_def embedded_def
      startsWith_def src_path_def fill_path_def clash_image_def clash_fill_def ex_layer_def)

text \<open>
  Claim C2.  The archive is to hold, at the path that the manifest gives for each
  embedded raster, the decoded bytes of that raster.  The path is built from the layer
  identifier alone, so two layers with different identifiers can get the same path.
  The image layer \<open>fill-a\<close> holds the embedded raster with the bytes 1, 2, 3 and the fill
  layer \<open>a\<close> the raster with the bytes 4, 5, 6.  The serializer returns an archive whose
  manifest points both layers to \<open>images/fill-a.png\<close>, and the file there has the bytes
  4, 5, 6: the raster of the image layer is not in the archive.
\<close>

theorem raster_path_clash:
  "layer_id clash_image \<noteq> layer_id clash_fill \<and>
   has_embedded_src clash_image \<and>
   dataUrlToUint8Array ex_atob (the (layer_src clash_image)) = Inr [1, 2, 3] \<and>
   \<not> isl (snd (projectToBlob ex_atob ''2024-06-01T12:00:00.000Z''
                 [clash_image, clash_fill] clash_project)) \<and>
   projr (snd (projectToBlob ex_atob ''2024-06-01T12:00:00.000Z''
                 [clash_image, clash_fill] clash_project)) ''manifest.json''
     = Some (ManifestJson
          \<lparr>manifest_version = ''2.0'', manifest_name = ''demo'',
           manifest_createdAt = ''2024-01-01T00:00:00.000Z'',
           manifest_modifiedAt = ''2024-06-01T12:00:00.000Z'',
           manifest_modelId = ''model3'', manifest_baseColor = ''#FF0000'',
           manifest_layers =
             [clash_image\<lparr>layer_src := Some ''images/fill-a.png''\<rparr>,
              clash_fill\<lparr>layer_fillImageDataUrl := Some ''images/fill-a.png''\<rparr>]\<rparr>) \<and>
   projr (snd (projectToBlob ex_atob ''2024-06-01T12:00:00.000Z''
                 [clash_image, clash_fill] clash_project)) ''images/fill-a.png''
     = Some (BinaryFile [4, 5, 6])"
proof -
  have refs: "\<forall>a \<in> set (project_layers clash_project). a < length [clash_image, clash_fill]"
    by (simp add: clash_project_def)
  have ls: "map (\<lambda>a. [clash_image, clash_fill] ! a) (project_layers clash_project)
      = [clash_image, clash_fill]"
    by (simp add: clash_project_def)
  have res: "snd (projectToBlob ex_atob ''2024-06-01T12:00:00.000Z''
                 [clash_image, clash_fill] clash_project) =
     Inr ((Map.empty(''manifest.json'' \<mapsto> ManifestJson
                   \<lparr>manifest_version = ''2.0'',
                      manifest_name = project_name clash_project,
                      manifest_createdAt = project_createdAt clash_project,
                      manifest_modifiedAt = ''2024-06-01T12:00:00.000Z'',
                      manifest_modelId = project_modelId clash_project,
                      manifest_baseColor = project_baseColor clash_project,
                      manifest_layers = map manifest_entry [clash_image, clash_fill]\<rparr>))
           (''images/'' \<mapsto> Folder, ''images/fill-a.png'' \<mapsto> BinaryFile [1, 2, 3],
            ''images/fill-a.png'' \<mapsto> BinaryFile [4, 5, 6]))"
    unfolding projectToBlob_unfold [OF refs] Let_def ls
    by (simp add: clash_entries ex_decode)
  have a: "layer_id clash_image \<noteq> layer_id clash_fill \<and> has_embedded_src clash_image \<and>
     dataUrlToUint8Array ex_atob (the (layer_src clash_image)) = Inr [1, 2, 3]"
    by (simp add: clash_image_def clash_fill_def ex_layer_def has_embedded_src_def embedded_def
        startsWith_def src_path_def ex_decode)
  show ?thesis
    unfolding res clash_manifest using a by (simp add: clash_project_def)
qed


section \<open>Properties of the export capture\<close>

lemma set_visible_length [simp]: "length (set_visible ns i v) = length ns"
  by (simp add: set_visible_def)

lemma set_visible_nth:
  "set_visible ns i v ! j = (if j = i \<and> i < length ns then (ns ! i)\<lparr>visible := v\<rparr> else ns ! j)"
  by (cases "i < length ns") (auto simp: set_visible_def nth_list_update list_update_beyond)

lemma set_visible_static [simp]:
  "className (set_visible ns i v ! j) = className (ns ! j)"
  "nodeType (set_visible ns i v ! j) = nodeType (ns ! j)"
  "listening (set_visible ns i v ! j) = listening (ns ! j)"
  "children (set_visible ns i v ! j) = children (ns ! j)"
  by (simp_all add: set_visible_nth)

lemma set_visible_other: "j \<noteq> i \<Longrightarrow> visible (set_visible ns i v ! j) = visible (ns ! j)"
  by (simp add: set_visible_nth)

lemma is_brush_cursor_set_visible [simp]:
  "is_brush_cursor (set_visible ns i v) g = is_brush_cursor ns g"
  by (simp add: is_brush_cursor_def is_match_def)

lemma find_nodes_set_visible [simp]:
  "find_nodes (set_visible ns i v) sel = find_nodes ns sel"
  by (simp add: find_nodes_def is_match_def)

lemma loop_test:
  "(list_ex (\<lambda>child. className child = ''Circle'') (map (\<lambda>c. ns ! c) (children (ns ! g)))
     \<and> length (map (\<lambda>c. ns ! c) (children (ns ! g))) \<ge> 2) =
   (list_ex (\<lambda>c. className (ns ! c) = ''Circle'') (children (ns ! g))
     \<and> length (children (ns ! g)) \<ge> 2)"
  by (simp add: list_ex_iff)

text \<open>The nodes hidden by the loop, in order.\<close>

lemma hide_brush_cursors_eq:
  assumes "distinct gs" and "\<forall>g \<in> set gs. is_match ''Group'' (ns0 ! g)"
    and "\<forall>j. className (ns ! j) = className (ns0 ! j) \<and> nodeType (ns ! j) = nodeType (ns0 ! j)
          \<and> listening (ns ! j) = listening (ns0 ! j) \<and> children (ns ! j) = children (ns0 ! j)"
  shows "hide_brush_cursors ns els gs =
           (fold (\<lambda>g m. set_visible m g False) (filter (is_brush_cursor ns0) gs) ns,
            els @ map (\<lambda>g. (g, visible (ns ! g))) (filter (is_brush_cursor ns0) gs))"
  using assms
proof (induction gs arbitrary: ns els)
  case Nil
  then show ?case by simp
next
  case (Cons g gs)
  have same: "is_brush_cursor ns g = is_brush_cursor ns0 g"
    using Cons.prems(3) by (simp add: is_brush_cursor_def is_match_def)
  have grp: "is_match ''Group'' (ns ! g)"
    using Cons.prems(2,3) by (simp add: is_match_def)
  have d: "distinct gs" "g \<notin> set gs" using Cons.prems(1) by simp_all
  have m: "\<forall>g \<in> set gs. is_match ''Group'' (ns0 ! g)" using Cons.prems(2) by simp
  show ?case
  proof (cases "is_brush_cursor ns0 g")
    case True
    then have t: "listening (ns ! g) = False"
      "list_ex (\<lambda>c. className (ns ! c) = ''Circle'') (children (ns ! g))"
      "length (children (ns ! g)) \<ge> 2"
      using same by (simp_all add: is_brush_cursor_def)
    have st: "\<forall>j. className (set_visible ns g False ! j) = className (ns0 ! j)
          \<and> nodeType (set_visible ns g False ! j) = nodeType (ns0 ! j)
          \<and> listening (set_visible ns g False ! j) = listening (ns0 ! j)
          \<and> children (set_visible ns g False ! j) = children (ns0 ! j)"
      using Cons.prems(3) by simp
    have vis: "map (\<lambda>g'. (g', visible (set_visible ns g False ! g'))) (filter (is_brush_cursor ns0) gs)
        = map (\<lambda>g'. (g', visible (ns ! g'))) (filter (is_brush_cursor ns0) gs)"
    proof (rule map_cong [OF refl])
      fix g' assume "g' \<in> set (filter (is_brush_cursor ns0) gs)"
      then have "g' \<noteq> g" using d(2) by auto
      then show "(g', visible (set_visible ns g False ! g')) = (g', visible (ns ! g'))"
        by (simp add: set_visible_other)
    qed
    have "hide_brush_cursors ns els (g # gs) =
        hide_brush_cursors (set_visible ns g False) (els @ [(g, visible (ns ! g))]) gs"
      using t by (simp add: list_ex_iff)
    also have "\<dots> = (fold (\<lambda>g m. set_visible m g False) (filter (is_brush_cursor ns0) gs)
                       (set_visible ns g False),
            (els @ [(g, visible (ns ! g))]) @
               map (\<lambda>g'. (g', visible (set_visible ns g False ! g')))
                 (filter (is_brush_cursor ns0) gs))"
      by (rule Cons.IH [OF d(1) m st])
    finally show ?thesis
      using True by (simp add: vis)
  next
    case False
    then have "\<not> (listening (ns ! g) = False
       \<and> list_ex (\<lambda>c. className (ns ! c) = ''Circle'') (children (ns ! g))
       \<and> length (children (ns ! g)) \<ge> 2)"
      using same grp by (simp add: is_brush_cursor_def)
    then have "hide_brush_cursors ns els (g # gs) = hide_brush_cursors ns els gs"
      by (auto simp: list_ex_iff)
    also have "\<dots> = (fold (\<lambda>g m. set_visible m g False) (filter (is_brush_cursor ns0) gs) ns,
            els @ map (\<lambda>g. (g, visible (ns ! g))) (filter (is_brush_cursor ns0) gs))"
      by (rule Cons.IH [OF d(1) m Cons.prems(3)])
    finally show ?thesis using False by simp
  qed
qed


lemma fold_hide_length [simp]:
  "length (fold (\<lambda>g m. set_visible m g False) H ns) = length ns"
  by (induction H arbitrary: ns) simp_all

lemma fold_hide_nth:
  "fold (\<lambda>g m. set_visible m g False) H ns ! j =
     (if j \<in> set H \<and> j < length ns then (ns ! j)\<lparr>visible := False\<rparr> else ns ! j)"
proof (induction H arbitrary: ns)
  case Nil
  then show ?case by simp
next
  case (Cons g H)
  show ?case
    by (auto simp: Cons.IH set_visible_nth)
qed

lemma restore_visibility_eq:
  assumes "length cur = length orig"
    and "\<forall>j < length orig. j \<notin> set H \<longrightarrow> cur ! j = orig ! j"
    and "\<forall>j < length orig. (cur ! j)\<lparr>visible := visible (orig ! j)\<rparr> = orig ! j"
  shows "restore_visibility cur (map (\<lambda>g. (g, visible (orig ! g))) H) = orig"
  using assms
proof (induction H arbitrary: cur)
  case Nil
  then show ?case by (simp add: nth_equalityI)
next
  case (Cons g H)
  let ?cur = "set_visible cur g (visible (orig ! g))"
  have 1: "length ?cur = length orig" using Cons.prems(1) by simp
  have 2: "\<forall>j < length orig. j \<notin> set H \<longrightarrow> ?cur ! j = orig ! j"
    using Cons.prems by (auto simp: set_visible_nth)
  have 3: "\<forall>j < length orig. (?cur ! j)\<lparr>visible := visible (orig ! j)\<rparr> = orig ! j"
    using Cons.prems by (auto simp: set_visible_nth)
  show ?case
    using Cons.IH [OF 1 2 3] by simp
qed

lemma find_nodes_distinct: "distinct (find_nodes ns sel)"
  by (simp add: find_nodes_def)

lemma find_nodes_mem: "g \<in> set (find_nodes ns sel) \<longleftrightarrow> g < length ns \<and> is_match sel (ns ! g)"
  by (auto simp: find_nodes_def)

lemma findOne_mem: "findOne ns sel = Some t \<Longrightarrow> t \<in> set (find_nodes ns sel)"
  by (auto simp: findOne_def split: list.splits)

text \<open>The export in terms of the list \<open>H\<close> of the nodes it hides.\<close>

lemma export_nodes:
  assumes H: "distinct H" "\<forall>g \<in> set H. g < length ns"
  shows "restore_visibility (fold (\<lambda>g m. set_visible m g False) H ns)
           (map (\<lambda>g. (g, visible (ns ! g))) H) = ns"
proof (rule restore_visibility_eq)
  show "length (fold (\<lambda>g m. set_visible m g False) H ns) = length ns" by simp
  show "\<forall>j<length ns. j \<notin> set H \<longrightarrow> fold (\<lambda>g m. set_visible m g False) H ns ! j = ns ! j"
    by (simp add: fold_hide_nth)
  show "\<forall>j<length ns. (fold (\<lambda>g m. set_visible m g False) H ns ! j)\<lparr>visible := visible (ns ! j)\<rparr> = ns ! j"
    by (simp add: fold_hide_nth)
qed

lemma hidden_for_capture_eq:
  assumes "\<forall>j < length ns. j \<in> set H \<longleftrightarrow> export_hides ns j"
  shows "fold (\<lambda>g m. set_visible m g False) H ns = hidden_for_capture ns"
  using assms
  by (intro nth_equalityI) (auto simp: hidden_for_capture_def fold_hide_nth)

text \<open>
  What the export does right: when the drawing returns, the first transformer and the
  groups that pass the loop's test are hidden in the capture, the pixel ratio is 1, and
  the stage is afterwards as it was.
\<close>

lemma export_hides_and_restores:
  assumes "\<forall>t. findOne (stage_nodes s) ''Transformer'' = Some t
             \<longrightarrow> \<not> is_brush_cursor (stage_nodes s) t"
    and returns: "throws (s\<lparr>stage_nodes := hidden_for_capture (stage_nodes s)\<rparr>) = None"
  shows "exportPngAsDataUrl throws (Some s) =
           (Some s,
            Resolved (Some \<lparr>capture_pixelRatio = 1, capture_mimeType = ''image/png'',
                  capture_width = stage_width s, capture_height = stage_height s,
                  capture_nodes = hidden_for_capture (stage_nodes s)\<rparr>))"
proof -
  define ns where "ns = stage_nodes s"
  define cursors where "cursors = filter (is_brush_cursor ns) (find_nodes ns ''Group'')"
  define H where "H = (case findOne ns ''Transformer'' of None \<Rightarrow> [] | Some t \<Rightarrow> [t]) @ cursors"
  define ns1 where "ns1 = (case findOne ns ''Transformer'' of None \<Rightarrow> ns
                            | Some t \<Rightarrow> set_visible ns t False)"
  define els1 where "els1 = (case findOne ns ''Transformer'' of None \<Rightarrow> []
                            | Some t \<Rightarrow> [(t, visible (ns ! t))])"
  have static: "\<forall>j. className (ns1 ! j) = className (ns ! j) \<and> nodeType (ns1 ! j) = nodeType (ns ! j)
          \<and> listening (ns1 ! j) = listening (ns ! j) \<and> children (ns1 ! j) = children (ns ! j)"
    by (simp add: ns1_def split: option.split)
  have groups: "find_nodes ns1 ''Group'' = find_nodes ns ''Group''"
    by (simp add: ns1_def split: option.split)
  have loop: "hide_brush_cursors ns1 els1 (find_nodes ns ''Group'') =
      (fold (\<lambda>g m. set_visible m g False) cursors ns1,
       els1 @ map (\<lambda>g. (g, visible (ns1 ! g))) cursors)"
    unfolding cursors_def
    by (rule hide_brush_cursors_eq [OF find_nodes_distinct _ static])
       (simp add: find_nodes_mem)
  have not_t: "t \<notin> set cursors" if "findOne ns ''Transformer'' = Some t" for t
    using assms(1) that by (simp add: cursors_def ns_def)
  have vis1: "map (\<lambda>g. (g, visible (ns1 ! g))) cursors = map (\<lambda>g. (g, visible (ns ! g))) cursors"
  proof (rule map_cong [OF refl])
    fix g assume g: "g \<in> set cursors"
    show "(g, visible (ns1 ! g)) = (g, visible (ns ! g))"
    proof (cases "findOne ns ''Transformer''")
      case None
      then show ?thesis by (simp add: ns1_def)
    next
      case (Some t)
      with not_t g have "g \<noteq> t" by auto
      with Some show ?thesis by (simp add: ns1_def set_visible_other)
    qed
  qed
  have ns2: "fold (\<lambda>g m. set_visible m g False) cursors ns1 = fold (\<lambda>g m. set_visible m g False) H ns"
    by (simp add: H_def ns1_def split: option.split)
  have els2: "els1 @ map (\<lambda>g. (g, visible (ns ! g))) cursors = map (\<lambda>g. (g, visible (ns ! g))) H"
    by (simp add: H_def els1_def split: option.split)
  have dH: "distinct H"
    using not_t by (auto simp: H_def cursors_def find_nodes_distinct split: option.split)
  have bH: "\<forall>g \<in> set H. g < length ns"
    using findOne_mem [of ns "''Transformer''"]
    by (auto simp: H_def cursors_def find_nodes_mem split: option.splits)
  have mem: "\<forall>j < length ns. j \<in> set H \<longleftrightarrow> export_hides ns j"
    by (auto simp: H_def cursors_def export_hides_def find_nodes_mem is_brush_cursor_def
        split: option.splits)
  have restore: "restore_visibility (fold (\<lambda>g m. set_visible m g False) H ns)
           (map (\<lambda>g. (g, visible (ns ! g))) H) = ns"
    by (rule export_nodes [OF dH bH])
  have hid: "fold (\<lambda>g m. set_visible m g False) H ns = hidden_for_capture ns"
    by (rule hidden_for_capture_eq [OF mem])
  have restore': "restore_visibility (hidden_for_capture ns)
           (map (\<lambda>g. (g, visible (ns ! g))) H) = ns"
    using restore by (simp only: hid)
  have step1: "(case findOne ns ''Transformer'' of
                   None \<Rightarrow> (ns, [])
                 | Some t \<Rightarrow> (set_visible ns t False, [(t, visible (ns ! t))])) = (ns1, els1)"
    by (simp add: ns1_def els1_def split: option.split)
  show ?thesis
    unfolding exportPngAsDataUrl_def option.case Let_def ns_def [symmetric] step1 prod.case
      groups loop vis1 ns2 els2 hid restore'
    using returns by (simp add: toDataURL_def ns_def)
qed

lemma ex_findOne: "findOne ex_nodes ''Transformer'' = Some 2"
  by code_simp

lemma ex_hidden:
  "hidden_for_capture ex_nodes =
     ex_nodes[2 := (ex_nodes ! 2)\<lparr>visible := False\<rparr>, 4 := (ex_nodes ! 4)\<lparr>visible := False\<rparr>]"
  by code_simp

lemma ex_not_cursor: "\<not> is_brush_cursor ex_nodes 2"
  by code_simp

lemma export_example:
  "exportPngAsDataUrl draws (Some ex_stage) =
     (Some ex_stage,
      Resolved (Some \<lparr>capture_pixelRatio = 1, capture_mimeType = ''image/png'',
            capture_width = 1024, capture_height = 1024,
            capture_nodes = ex_nodes[2 := (ex_nodes ! 2)\<lparr>visible := False\<rparr>,
                                     4 := (ex_nodes ! 4)\<lparr>visible := False\<rparr>]\<rparr>))"
proof -
  have h: "\<forall>t. findOne (stage_nodes ex_stage) ''Transformer'' = Some t
         \<longrightarrow> \<not> is_brush_cursor (stage_nodes ex_stage) t"
    by (simp add: ex_stage_def editor_stage_def ex_findOne ex_not_cursor)
  have r: "draws (ex_stage\<lparr>stage_nodes := hidden_for_capture (stage_nodes ex_stage)\<rparr>) = None"
    by (simp add: draws_def)
  from export_hides_and_restores [of ex_stage draws, OF h r] show ?thesis
    by (simp add: ex_stage_def editor_stage_def ex_hidden)
qed

lemma line_findOne: "findOne line_nodes ''Transformer'' = Some 3"
  by code_simp

lemma line_hidden:
  "hidden_for_capture line_nodes = line_nodes[3 := (line_nodes ! 3)\<lparr>visible := False\<rparr>]"
  by code_simp

lemma line_not_cursor: "\<not> is_brush_cursor line_nodes 3"
  by code_simp

text \<open>
  Claim C8.  The export is to hide every interactive-only node before it captures, so
  that the capture shows no selection handle and no brush cursor, and to leave the
  stage as it was.  On the editor's stage with a line layer selected, drawn without
  failure at pixel ratio 1 and extent 1024 by 1024, the transformer is hidden in the
  capture, but the two handle circles of the line are not: nothing in the export looks
  for them.  When \<open>toDataURL\<close> throws, the promise rejects and the transformer stays
  hidden, since the restoring loop is placed after the call and is not reached.
\<close>

theorem export_keeps_line_handles:
  "className (line_nodes ! 5) = ''Circle'' \<and> className (line_nodes ! 6) = ''Circle'' \<and>
   exportPngAsDataUrl draws (Some line_stage) =
     (Some line_stage,
      Resolved (Some \<lparr>capture_pixelRatio = 1, capture_mimeType = ''image/png'',
            capture_width = 1024, capture_height = 1024,
            capture_nodes = line_nodes[3 := (line_nodes ! 3)\<lparr>visible := False\<rparr>]\<rparr>)) \<and>
   visible (line_nodes[3 := (line_nodes ! 3)\<lparr>visible := False\<rparr>] ! 5) \<and>
   visible (line_nodes[3 := (line_nodes ! 3)\<lparr>visible := False\<rparr>] ! 6) \<and>
   exportPngAsDataUrl tainted (Some line_stage) =
     (Some (editor_stage (line_nodes[3 := (line_nodes ! 3)\<lparr>visible := False\<rparr>])),
      Rejected SecurityError) \<and>
   visible (line_nodes ! 3) \<and>
   \<not> visible (line_nodes[3 := (line_nodes ! 3)\<lparr>visible := False\<rparr>] ! 3)"
proof -
  have h: "\<forall>t. findOne (stage_nodes line_stage) ''Transformer'' = Some t
         \<longrightarrow> \<not> is_brush_cursor (stage_nodes line_stage) t"
    by (simp add: line_stage_def editor_stage_def line_findOne line_not_cursor)
  have r: "draws (line_stage\<lparr>stage_nodes := hidden_for_capture (stage_nodes line_stage)\<rparr>) = None"
    by (simp add: draws_def)
  have ok: "exportPngAsDataUrl draws (Some line_stage) =
     (Some line_stage,
      Resolved (Some \<lparr>capture_pixelRatio = 1, capture_mimeType = ''image/png'',
            capture_width = 1024, capture_height = 1024,
            capture_nodes = line_nodes[3 := (line_nodes ! 3)\<lparr>visible := False\<rparr>]\<rparr>))"
    using export_hides_and_restores [of line_stage draws, OF h r]
    by (simp add: line_stage_def editor_stage_def line_hidden)
  have bad: "exportPngAsDataUrl tainted (Some line_stage) =
     (Some (editor_stage (line_nodes[3 := (line_nodes ! 3)\<lparr>visible := False\<rparr>])),
      Rejected SecurityError)"
    by code_simp
  have rest: "className (line_nodes ! 5) = ''Circle'' \<and> className (line_nodes ! 6) = ''Circle'' \<and>
     visible (line_nodes[3 := (line_nodes ! 3)\<lparr>visible := False\<rparr>] ! 5) \<and>
     visible (line_nodes[3 := (line_nodes ! 3)\<lparr>visible := False\<rparr>] ! 6) \<and>
     visible (line_nodes ! 3) \<and>
     \<not> visible (line_nodes[3 := (line_nodes ! 3)\<lparr>visible := False\<rparr>] ! 3)"
    by (simp add: line_nodes_def)
  from ok bad rest show ?thesis by simp
qed


section \<open>Properties of the compositor\<close>

lemma drawn_layers_shapes:
  "drawn_layers_list (map (\<lambda>layer. LayerShape (component_of (layer_type layer)) layer) ls @ rest)
     = ls @ drawn_layers_list rest"
  by (induction ls) simp_all

lemma foldl_addLayer: "foldl addLayer acc new = rev new @ acc"
  by (induction new arbitrary: acc) (simp_all add: addLayer_def)

text \<open>
  Claim C3.  The compositor draws the design layers in the reverse of their stored
  order: the last layer of the stored list is drawn first, at the back, and its head is
  drawn last, in front.  With \<open>addLayer\<close> putting each new layer at the head, the
  stored list is most-recent-first and the layers are drawn in the order in which they
  were added, the oldest first and the most recently added last.
\<close>

theorem render_order_reversed:
  "drawn_layers_list (editor_canvas baseColor layers) = rev layers \<and>
   drawn_layers_list (editor_canvas baseColor (foldl addLayer [] added)) = added"
  by (simp add: editor_canvas_def base_group_def design_group_def template_mask_def
      drawn_layers_shapes foldl_addLayer)

lemma draw_shapes_alpha_free:
  "draw_children raster over DestinationIn [TemplateImage] canvas =
     (\<lambda>p. (fst (canvas p), snd (canvas p) * snd (raster TemplateImage p)))"
  by (simp add: composite_def)

lemma draw_children_append:
  "draw_children raster over operation (ns @ ms) canvas =
     draw_children raster over operation ms (draw_children raster over operation ns canvas)"
  by (induction ns arbitrary: canvas) simp_all

lemma draw_template_mask:
  "draw raster over SourceOver template_mask canvas =
     (\<lambda>p. (fst (canvas p), snd (canvas p) * snd (raster TemplateImage p)))"
  by (simp add: template_mask_def composite_def)

text \<open>
  Claim C4.  Whatever the shapes of the layers paint (any position, scale, rotation):
  the base colour fill is masked by the template (its alpha is multiplied by the
  template's alpha), the whole layer stack drawn over it is masked by the template a
  second time, and so the masked composite has alpha 0 at every pixel where the
  template has alpha 0.
\<close>

theorem composite_confined_to_template:
  "snd (draw raster over SourceOver (base_group baseColor) canvas p) =
     snd (over (raster (BaseRect baseColor) p) (canvas p)) * snd (raster TemplateImage p) \<and>
   snd (masked_composite raster over baseColor layers canvas p) =
     snd (unmasked_stack raster over baseColor layers canvas p) * snd (raster TemplateImage p) \<and>
   (snd (raster TemplateImage p) = 0 \<longrightarrow>
      snd (masked_composite raster over baseColor layers canvas p) = 0)"
proof -
  have base: "snd (draw raster over SourceOver (base_group baseColor) canvas p) =
     snd (over (raster (BaseRect baseColor) p) (canvas p)) * snd (raster TemplateImage p)"
    by (simp add: base_group_def draw_template_mask composite_def)
  have m: "masked_composite raster over baseColor layers canvas =
      draw raster over SourceOver template_mask (unmasked_stack raster over baseColor layers canvas)"
    by (simp add: masked_composite_def unmasked_stack_def editor_canvas_def design_group_def
        draw_children_append)
  have stack: "snd (masked_composite raster over baseColor layers canvas p) =
     snd (unmasked_stack raster over baseColor layers canvas p) * snd (raster TemplateImage p)"
    by (simp add: m draw_template_mask)
  from base stack show ?thesis by simp
qed

theorem composite_confined_to_template_witness:
  "snd (ex_raster TemplateImage (600, 10)) = 0 \<and>
   snd (masked_composite ex_raster ex_over ''#FF0000'' [ex_rect\<lparr>layer_x := 900\<rparr>] ex_blank (600, 10)) = 0 \<and>
   snd (masked_composite ex_raster ex_over ''#FF0000'' [ex_rect\<lparr>layer_x := 900\<rparr>] ex_blank (10, 10)) = 1"
  using composite_confined_to_template [of ex_raster ex_over "''#FF0000''" ex_blank "(600, 10)"
      "[ex_rect\<lparr>layer_x := 900\<rparr>]"]
    composite_confined_to_template [of ex_raster ex_over "''#FF0000''" ex_blank "(10, 10)"
      "[ex_rect\<lparr>layer_x := 900\<rparr>]"]
  by (simp add: ex_raster_def ex_over_def ex_blank_def unmasked_stack_def base_group_def
      template_mask_def composite_def)


section \<open>Properties of publishing\<close>

lemma send_project [simp]: "in_memory_project (send r w) = in_memory_project w"
  by (simp add: send_def)

lemma publish_try_project:
  "in_memory_project (snd (publish_try env args w)) = in_memory_project w"
  by (simp add: publish_try_def Let_def split: call.split option.split)

lemma first_present_simps [simp]:
  "first_present [] = None"
  "first_present (None # xs) = first_present xs"
  "first_present (Some x # xs) = Some x"
  by (simp_all add: first_present_def map_filter_simps)

lemma publish_try_caught:
  "(case fst (publish_try env args w) of
      Inl err \<Rightarrow> \<lparr>designId = [], error = Some (Underlying err)\<rparr>
    | Inr result \<Rightarrow> result) =
   (case first_present
           [call_error (randomUUID_result env),
            call_error (fetch_blob_result env),
            step_error (upload_preview_result env),
            step_error (upload_project_result env),
            call_error (getPublicUrl_result env),
            step_error (insert_result env)] of
      Some e \<Rightarrow> \<lparr>designId = [], error = Some (Underlying e)\<rparr>
    | None \<Rightarrow> \<lparr>designId = generated_id env, error = None\<rparr>)"
  by (cases "randomUUID_result env"; cases "fetch_blob_result env";
      cases "upload_preview_result env"; cases "upload_project_result env";
      cases "getPublicUrl_result env"; cases "insert_result env";
      simp add: publish_try_def call_error_def step_error_def generated_id_def Let_def
        split: option.split)

text \<open>
  Claim C9.  The promise returned by \<open>publishDesign\<close> never rejects.  When a step fails
  (the client is not configured, a call throws or rejects, or an upload or the insert
  resolves with an error), it resolves with the empty design identifier and the error
  of the first failing step: the message \<open>Supabase not configured\<close>, or the error value
  received.  When every step succeeds it resolves with the identifier generated in this
  invocation and a null error.  The in-memory project is the same afterwards.
\<close>

theorem publishDesign_never_throws:
  "fst (publishDesign env args w) =
     Inr (case first_failure env of
            Some err \<Rightarrow> \<lparr>designId = [], error = Some err\<rparr>
          | None \<Rightarrow> \<lparr>designId = generated_id env, error = None\<rparr>) \<and>
   in_memory_project (snd (publishDesign env args w)) = in_memory_project w"
proof -
  have p: "in_memory_project (snd (publishDesign env args w)) = in_memory_project w"
    using publish_try_project [of env args w]
    by (auto simp: publishDesign_def split: prod.split sum.split)
  have c: "fst (publishDesign env args w) =
     (if \<not> supabase_configured env
      then Inr \<lparr>designId = [], error = Some (Message ''Supabase not configured'')\<rparr>
      else Inr (case fst (publish_try env args w) of
                  Inl err \<Rightarrow> \<lparr>designId = [], error = Some (Underlying err)\<rparr>
                | Inr result \<Rightarrow> result))"
    by (auto simp: publishDesign_def split: prod.split sum.split)
  have r: "fst (publishDesign env args w) =
     Inr (case first_failure env of
            Some err \<Rightarrow> \<lparr>designId = [], error = Some err\<rparr>
          | None \<Rightarrow> \<lparr>designId = generated_id env, error = None\<rparr>)"
    unfolding c publish_try_caught
    by (simp add: first_failure_def split: option.split)
  from r p show ?thesis by simp
qed

theorem publishDesign_never_throws_witness:
  "fst (publishDesign ex_env ex_args ex_world) =
     Inr \<lparr>designId = ''123e4567-e89b-12d3-a456-426614174000'', error = None\<rparr> \<and>
   fst (publishDesign (ex_env\<lparr>upload_project_result := Resolves (Some ''too large'')\<rparr>)
          ex_args ex_world) =
     Inr \<lparr>designId = [], error = Some (Underlying ''too large'')\<rparr> \<and>
   in_memory_project (snd (publishDesign ex_env ex_args ex_world)) = ex_project"
  using publishDesign_never_throws [of ex_env ex_args ex_world]
    publishDesign_never_throws [of "ex_env\<lparr>upload_project_result := Resolves (Some ''too large'')\<rparr>"
      ex_args ex_world]
  by (simp add: first_failure_def ex_env_def ex_world_def call_error_def step_error_def
      generated_id_def)

end
